theory Spec2Isabelle
  imports Complex_Main "HOL-Library.Char_ord" "HOL-Library.List_Lexorder"
begin

section \<open>Tables\<close>

text \<open>
  The program (\<^verbatim>\<open>app_32.py\<close>) moves pandas tables between three places: the measurement
  workbook the analyst uploads, the rows the remote service answers with, and the sheets of
  the workbook offered for download.

  A cell holds a raw value \<open>Val v\<close> (whatever Excel or JSON delivered: a number, a text),
  the missing-number marker \<open>NaN\<close>, a parsed time \<open>Timestamp t\<close>, or the missing-time marker
  \<open>NaT\<close>. The raw value type \<open>'v\<close> and the time type \<open>'t\<close> stay abstract.
\<close>

datatype ('v, 't) cell = Val 'v | NaN | Timestamp 't | NaT

text \<open>
  A \<^verbatim>\<open>DataFrame\<close> is column-oriented: a row count (the length of its index) and the
  labelled columns in order. A frame built by pandas has every column of length \<open>nrows\<close>
  (\<open>frame_ok\<close>). A frame may have rows and no column.
\<close>

record ('v, 't) frame =
  nrows :: nat
  cols :: "(string \<times> ('v, 't) cell list) list"

definition frame_ok :: "('v, 't) frame \<Rightarrow> bool" where
  "frame_ok df = (\<forall>(n, vs) \<in> set (cols df). length vs = nrows df)"

definition columns :: "('v, 't) frame \<Rightarrow> string list" where
  "columns df = map fst (cols df)"

text \<open>\<^verbatim>\<open>df.empty\<close>: true when any axis has length 0.\<close>

definition empty_frame :: "('v, 't) frame \<Rightarrow> bool" where
  "empty_frame df = (nrows df = 0 \<or> cols df = [])"

text \<open>\<^verbatim>\<open>df[name]\<close> read, for a label that is present; the first column with that label.\<close>

definition series :: "('v, 't) frame \<Rightarrow> string \<Rightarrow> ('v, 't) cell list" where
  "series df name = (case map_of (cols df) name of Some vs \<Rightarrow> vs | None \<Rightarrow> [])"

text \<open>
  \<^verbatim>\<open>df[name] = values\<close>: a column with that label is replaced where it stands, a new label
  is appended as the last column.
\<close>

definition setitem :: "string \<Rightarrow> ('v, 't) cell list \<Rightarrow> ('v, 't) frame \<Rightarrow> ('v, 't) frame" where
  "setitem name vs df =
     (if name \<in> set (columns df)
      then df\<lparr>cols := map (\<lambda>(n, old). if n = name then (n, vs) else (n, old)) (cols df)\<rparr>
      else df\<lparr>cols := cols df @ [(name, vs)]\<rparr>)"

text \<open>\<^verbatim>\<open>df.drop(columns=names, errors="ignore")\<close>: labels that are absent are ignored.\<close>

definition drop_columns :: "string list \<Rightarrow> ('v, 't) frame \<Rightarrow> ('v, 't) frame" where
  "drop_columns names df = df\<lparr>cols := filter (\<lambda>(n, vs). n \<notin> set names) (cols df)\<rparr>"

text \<open>
  A row as \<^verbatim>\<open>iterrows\<close> yields it and as a JSON object of the service has it: labels with
  their values, in order.
\<close>

type_synonym ('v, 't) row = "(string \<times> ('v, 't) cell) list"

definition index :: "('v, 't) row \<Rightarrow> string list" where
  "index row = map fst row"

definition iterrows :: "('v, 't) frame \<Rightarrow> ('v, 't) row list" where
  "iterrows df = map (\<lambda>i. map (\<lambda>(n, vs). (n, vs ! i)) (cols df)) [0..<nrows df]"

text \<open>
  \<^verbatim>\<open>pd.DataFrame(data)\<close> for a list of JSON objects: one row per object in the order of
  the list, the columns are the keys in order of first appearance, and a key an object
  lacks gives \<open>NaN\<close>.
\<close>

fun first_seen :: "string list \<Rightarrow> string list \<Rightarrow> string list" where
  "first_seen seen [] = seen"
| "first_seen seen (k # ks) = (if k \<in> set seen then first_seen seen ks else first_seen (seen @ [k]) ks)"

definition json_get :: "('v, 't) row \<Rightarrow> string \<Rightarrow> ('v, 't) cell" where
  "json_get r k = (case map_of r k of Some v \<Rightarrow> v | None \<Rightarrow> NaN)"

definition DataFrame :: "('v, 't) row list \<Rightarrow> ('v, 't) frame" where
  "DataFrame rows =
     \<lparr>nrows = length rows,
      cols = map (\<lambda>k. (k, map (\<lambda>r. json_get r k) rows)) (first_seen [] (concat (map index rows)))\<rparr>"

section \<open>Measurement loading\<close>

text \<open>
  Lines 282 to 301 of the query handler. Every row of the first sheet is searched for a
  value column and a name column among fixed spellings; \<^verbatim>\<open>c in row.index\<close> compares labels
  for equality.
\<close>

datatype exn = KeyError string | Exception string

definition m_val_spellings :: "string list" where
  "m_val_spellings = [''M value'', ''M Value'', ''M_Value'', ''m_value'']"

definition m_name_spellings :: "string list" where
  "m_name_spellings = [''M Name'', ''M name'', ''M_name'', ''m_name'']"

text \<open>\<^verbatim>\<open>next((c for c in spellings if c in row.index), None)\<close>\<close>

definition m_val_col :: "('v, 't) row \<Rightarrow> string option" where
  "m_val_col row = find (\<lambda>c. c \<in> set (index row)) m_val_spellings"

definition m_name_col :: "('v, 't) row \<Rightarrow> string option" where
  "m_name_col row = find (\<lambda>c. c \<in> set (index row)) m_name_spellings"

text \<open>\<^verbatim>\<open>row[c]\<close> raises \<^verbatim>\<open>KeyError\<close> for a label the row lacks.\<close>

definition row_get :: "('v, 't) row \<Rightarrow> string \<Rightarrow> exn + ('v, 't) cell" where
  "row_get row c = (case map_of row c of None \<Rightarrow> Inl (KeyError c) | Some v \<Rightarrow> Inr v)"

text \<open>
  The entry sent to the service: \<^verbatim>\<open>M_name\<close> is the cell of the name column, or the text
  \<^verbatim>\<open>f"M{value}"\<close>. How Python prints a cell is the parameter \<open>fmt\<close>.
\<close>

datatype ('v, 't) name_val = FromColumn "('v, 't) cell" | Text string

record ('v, 't) measurement =
  M_value :: "('v, 't) cell"
  M_name :: "('v, 't) name_val"

text \<open>
  The loop over \<^verbatim>\<open>measurements_df.iterrows()\<close>, appending to \<^verbatim>\<open>measurements\<close>. Every
  spelling is a non-empty text, so \<^verbatim>\<open>if m_val_col:\<close> is true exactly when one was found.
\<close>

fun measurements_loop ::
  "(('v, 't) cell \<Rightarrow> string) \<Rightarrow> ('v, 't) row list \<Rightarrow> ('v, 't) measurement list
     \<Rightarrow> exn + ('v, 't) measurement list" where
  "measurements_loop fmt [] measurements = Inr measurements"
| "measurements_loop fmt (row # rest) measurements =
     (case m_val_col row of
        None \<Rightarrow> measurements_loop fmt rest measurements
      | Some vc \<Rightarrow>
          (case row_get row vc of
             Inl e \<Rightarrow> Inl e
           | Inr v \<Rightarrow>
               (case m_name_col row of
                  None \<Rightarrow>
                    measurements_loop fmt rest
                      (measurements @ [\<lparr>M_value = v, M_name = Text (''M'' @ fmt v)\<rparr>])
                | Some nc \<Rightarrow>
                    (case row_get row nc of
                       Inl e \<Rightarrow> Inl e
                     | Inr n \<Rightarrow>
                         measurements_loop fmt rest
                           (measurements @ [\<lparr>M_value = v, M_name = FromColumn n\<rparr>])))))"

text \<open>
  The body of the \<^verbatim>\<open>try\<close>: \<^verbatim>\<open>pd.read_excel\<close> either raises (\<open>Inl\<close>) or gives the first
  sheet, then the loop runs.
\<close>

definition load_measurements ::
  "(('v, 't) cell \<Rightarrow> string) \<Rightarrow> exn + ('v, 't) frame \<Rightarrow> exn + ('v, 't) measurement list" where
  "load_measurements fmt read_excel =
     (case read_excel of
        Inl e \<Rightarrow> Inl e
      | Inr measurements_df \<Rightarrow> measurements_loop fmt (iterrows measurements_df) [])"

section \<open>Custom ranges\<close>

text \<open>
  Lines 244 to 262 and 303 to 312. Each of the four slots has a checkbox and a number
  field; the number field is only shown, and only read, when the box is ticked.
\<close>

record range_entry =
  enabled :: bool
  "value" :: real

record range_widgets =
  use_high1 :: bool
  high1_input :: real
  use_high2 :: bool
  high2_input :: real
  use_low1 :: bool
  low1_input :: real
  use_low2 :: bool
  low2_input :: real

definition high1 :: "range_widgets \<Rightarrow> real" where
  "high1 w = (if use_high1 w then high1_input w else 0.0)"

definition high2 :: "range_widgets \<Rightarrow> real" where
  "high2 w = (if use_high2 w then high2_input w else 0.0)"

definition low1 :: "range_widgets \<Rightarrow> real" where
  "low1 w = (if use_low1 w then low1_input w else 0.0)"

definition low2 :: "range_widgets \<Rightarrow> real" where
  "low2 w = (if use_low2 w then low2_input w else 0.0)"

text \<open>The dictionary \<^verbatim>\<open>custom_ranges\<close>, as its items in insertion order.\<close>

definition build_custom_ranges :: "range_widgets \<Rightarrow> (string \<times> range_entry) list" where
  "build_custom_ranges w =
     (if use_high1 w \<and> high1 w > 0 then [(''High 1'', \<lparr>enabled = True, value = high1 w\<rparr>)] else []) @
     (if use_high2 w \<and> high2 w > 0 then [(''High 2'', \<lparr>enabled = True, value = high2 w\<rparr>)] else []) @
     (if use_low1 w \<and> low1 w > 0 then [(''Low 1'', \<lparr>enabled = True, value = low1 w\<rparr>)] else []) @
     (if use_low2 w \<and> low2 w > 0 then [(''Low 2'', \<lparr>enabled = True, value = low2 w\<rparr>)] else [])"

section \<open>Text and time formatting\<close>

text \<open>
  \<^verbatim>\<open>str.lower\<close> on the letters A to Z; texts are byte strings here, so letters beyond
  ASCII are not covered.
\<close>

definition lower_char :: "char \<Rightarrow> char" where
  "lower_char c = (if CHR ''A'' \<le> c \<and> c \<le> CHR ''Z'' then char_of (of_char c + (32::nat)) else c)"

definition lower :: "string \<Rightarrow> string" where
  "lower s = map lower_char s"

text \<open>\<^verbatim>\<open>str.replace\<close> of one character by another.\<close>

definition replace_char :: "char \<Rightarrow> char \<Rightarrow> string \<Rightarrow> string" where
  "replace_char old new s = map (\<lambda>c. if c = old then new else c) s"

text \<open>Decimal digits of a natural number, and the two-digit zero-padded fields of \<^verbatim>\<open>strftime\<close>.\<close>

fun show_nat :: "nat \<Rightarrow> string" where
  "show_nat n = (if n < 10 then [char_of (48 + n)] else show_nat (n div 10) @ [char_of (48 + n mod 10)])"

declare show_nat.simps [simp del]

definition two_digits :: "nat \<Rightarrow> string" where
  "two_digits n = (if n < 10 then ''0'' @ show_nat n else show_nat n)"

text \<open>
  A \<^verbatim>\<open>datetime\<close>, down to the minute. The month is one of twelve, the other fields are in
  the ranges the Python type enforces (\<open>datetime_ok\<close>).
\<close>

datatype month = Jan | Feb | Mar | Apr | May | Jun | Jul | Aug | Sep | Oct | Nov | Dec

record datetime =
  year :: nat
  month :: month
  day :: nat
  hour :: nat
  minute :: nat

definition datetime_ok :: "datetime \<Rightarrow> bool" where
  "datetime_ok t = (1 \<le> year t \<and> year t \<le> 9999 \<and> 1 \<le> day t \<and> day t \<le> 31 \<and> hour t \<le> 23 \<and> minute t \<le> 59)"

text \<open>\<^verbatim>\<open>%b\<close> (in the C locale) and \<^verbatim>\<open>%m\<close>.\<close>

fun month_abbr :: "month \<Rightarrow> string" where
  "month_abbr Jan = ''Jan''" | "month_abbr Feb = ''Feb''" | "month_abbr Mar = ''Mar''"
| "month_abbr Apr = ''Apr''" | "month_abbr May = ''May''" | "month_abbr Jun = ''Jun''"
| "month_abbr Jul = ''Jul''" | "month_abbr Aug = ''Aug''" | "month_abbr Sep = ''Sep''"
| "month_abbr Oct = ''Oct''" | "month_abbr Nov = ''Nov''" | "month_abbr Dec = ''Dec''"

fun month_number :: "month \<Rightarrow> nat" where
  "month_number Jan = 1" | "month_number Feb = 2" | "month_number Mar = 3"
| "month_number Apr = 4" | "month_number May = 5" | "month_number Jun = 6"
| "month_number Jul = 7" | "month_number Aug = 8" | "month_number Sep = 9"
| "month_number Oct = 10" | "month_number Nov = 11" | "month_number Dec = 12"

text \<open>\<^verbatim>\<open>report_time.strftime("%d-%b-%y_%H-%M")\<close>, line 88.\<close>

definition report_datetime_str :: "datetime \<Rightarrow> string" where
  "report_datetime_str t =
     two_digits (day t) @ ''-'' @ month_abbr (month t) @ ''-'' @ two_digits (year t mod 100) @
     ''_'' @ two_digits (hour t) @ ''-'' @ two_digits (minute t)"

text \<open>\<^verbatim>\<open>report_time.strftime('%Y-%m-%d')\<close>, line 236 (the year is printed without padding).\<close>

definition report_date_str :: "datetime \<Rightarrow> string" where
  "report_date_str t =
     show_nat (year t) @ ''-'' @ two_digits (month_number (month t)) @ ''-'' @ two_digits (day t)"

section \<open>Frames as objects\<close>

text \<open>
  Python holds a \<^verbatim>\<open>DataFrame\<close> by reference, and \<^verbatim>\<open>df[name] = values\<close> changes the object
  every holder of the reference sees. The store is the list of all frames created so far; a
  reference is a position in it. \<^verbatim>\<open>drop\<close> and \<^verbatim>\<open>copy\<close> create a new frame, an item
  assignment overwrites one in place.
\<close>

type_synonym addr = nat

type_synonym ('v, 't) store = "('v, 't) frame list"

definition new_frame :: "('v, 't) frame \<Rightarrow> ('v, 't) store \<Rightarrow> ('v, 't) store \<times> addr" where
  "new_frame df h = (h @ [df], length h)"

definition df_drop :: "string list \<Rightarrow> addr \<Rightarrow> ('v, 't) store \<Rightarrow> ('v, 't) store \<times> addr" where
  "df_drop names a h = new_frame (drop_columns names (h ! a)) h"

definition df_copy :: "addr \<Rightarrow> ('v, 't) store \<Rightarrow> ('v, 't) store \<times> addr" where
  "df_copy a h = new_frame (h ! a) h"

definition df_setitem :: "addr \<Rightarrow> string \<Rightarrow> ('v, 't) cell list \<Rightarrow> ('v, 't) store \<Rightarrow> ('v, 't) store" where
  "df_setitem a name vs h = h[a := setitem name vs (h ! a)]"

text \<open>
  \<^verbatim>\<open>pd.to_datetime(values, errors="coerce")\<close>. The parser of pandas is the parameter
  \<open>parse\<close>; its first argument is the flag \<^verbatim>\<open>infer_datetime_format\<close>. With
  \<^verbatim>\<open>errors="coerce"\<close> a value that does not parse becomes \<open>NaT\<close>.
\<close>

definition to_datetime ::
  "(bool \<Rightarrow> ('v, 't) cell \<Rightarrow> 't option) \<Rightarrow> bool \<Rightarrow> ('v, 't) cell list \<Rightarrow> ('v, 't) cell list" where
  "to_datetime parse infer vs = map (\<lambda>v. case parse infer v of Some t \<Rightarrow> Timestamp t | None \<Rightarrow> NaT) vs"

text \<open>\<^verbatim>\<open>_coerce_arrival_datetime\<close>, lines 90 to 96.\<close>

definition coerce_arrival_datetime ::
  "(bool \<Rightarrow> ('v, 't) cell \<Rightarrow> 't option) \<Rightarrow> addr \<Rightarrow> ('v, 't) store \<Rightarrow> ('v, 't) store \<times> addr" where
  "coerce_arrival_datetime parse a h =
     (let (h1, df) = df_copy a h in
      if ''Arrival_datetime'' \<in> set (columns (h1 ! df))
      then (df_setitem df ''Arrival''
              (to_datetime parse False (series (h1 ! df) ''Arrival_datetime'')) h1, df)
      else if ''Arrival'' \<in> set (columns (h1 ! df))
      then (df_setitem df ''Arrival''
              (to_datetime parse True (series (h1 ! df) ''Arrival'')) h1, df)
      else (h1, df))"

section \<open>The unified export\<close>

text \<open>
  A value of the \<^verbatim>\<open>traveler_reports\<close> dictionary is a frame or something else; the
  dictionary is the list of its items in insertion order.
\<close>

datatype pyobj = Frame addr | NotAFrame

text \<open>
  What the writer received for one sheet: its name, the table, the header cells rewritten
  in the header style, and the column given the date format and width 18, if any. The
  workbook is the list of these in the order written; what the writer library itself
  refuses (a sheet name used twice, a character it does not allow) is not modelled.
\<close>

record ('v, 't) sheet =
  sheet_name :: string
  table :: "('v, 't) frame"
  header :: "string list"
  date_column :: "nat option"

definition sheet_name_of :: "string \<Rightarrow> string" where
  "sheet_name_of group_name =
     take 31 (replace_char CHR ''-'' CHR ''_'' (replace_char CHR '' '' CHR ''_'' group_name))"

text \<open>\<^verbatim>\<open>columns.get_loc(name)\<close> for a label that is present.\<close>

definition get_loc :: "string \<Rightarrow> string list \<Rightarrow> nat" where
  "get_loc name cs = length (takeWhile (\<lambda>c. c \<noteq> name) cs)"

text \<open>The loop of lines 107 to 123 over \<^verbatim>\<open>traveler_reports.items()\<close>.\<close>

fun export_loop ::
  "(bool \<Rightarrow> ('v, 't) cell \<Rightarrow> 't option) \<Rightarrow> (string \<times> pyobj) list \<Rightarrow> ('v, 't) sheet list
     \<Rightarrow> ('v, 't) store \<Rightarrow> ('v, 't) store \<times> ('v, 't) sheet list" where
  "export_loop parse [] sheets h = (h, sheets)"
| "export_loop parse ((group_name, NotAFrame) # rest) sheets h = export_loop parse rest sheets h"
| "export_loop parse ((group_name, Frame group_data) # rest) sheets h =
     (if empty_frame (h ! group_data) then export_loop parse rest sheets h
      else
        (let (h1, dropped) = df_drop [''Group''] group_data h;
             (h2, copied) = df_copy dropped h1;
             (h3, export_data) = coerce_arrival_datetime parse copied h2;
             ws = \<lparr>sheet_name = sheet_name_of group_name,
                   table = h3 ! export_data,
                   header = columns (h3 ! export_data),
                   date_column =
                     (if ''Arrival'' \<in> set (columns (h3 ! export_data))
                      then Some (get_loc ''Arrival'' (columns (h3 ! export_data))) else None)\<rparr>
         in export_loop parse rest (sheets @ [ws]) h3))"

text \<open>
  The download button: the workbook, the file name, and the two numbers printed in its
  help text.
\<close>

record ('v, 't) download =
  workbook :: "('v, 't) sheet list"
  file_name :: string
  mime :: string
  num_groups :: nat
  total_entries :: nat

text \<open>
  \<^verbatim>\<open>render_unified_export\<close>, lines 80 to 135. \<open>None\<close> is the early return of line 82: no
  button is rendered. The counts of lines 126 and 127 read the frames after the loop.
\<close>

definition render_unified_export ::
  "(bool \<Rightarrow> ('v, 't) cell \<Rightarrow> 't option) \<Rightarrow> (string \<times> pyobj) list \<Rightarrow> datetime \<Rightarrow> string
     \<Rightarrow> ('v, 't) store \<Rightarrow> ('v, 't) store \<times> ('v, 't) download option" where
  "render_unified_export parse traveler_reports report_time asset_id h =
     (if traveler_reports = [] then (h, None)
      else
        (let asset_prefix = (if asset_id \<noteq> [] then lower asset_id @ ''_'' else []);
             (h', sheets) = export_loop parse traveler_reports [] h;
             total = sum_list (map (\<lambda>(k, v). case v of Frame a \<Rightarrow> nrows (h' ! a) | NotAFrame \<Rightarrow> 0)
                                  traveler_reports);
             groups = length (filter (\<lambda>(k, v). case v of Frame a \<Rightarrow> \<not> empty_frame (h' ! a)
                                                     | NotAFrame \<Rightarrow> False) traveler_reports)
         in (h', Some \<lparr>workbook = sheets,
                       file_name = asset_prefix @ ''traveler_report_'' @ report_datetime_str report_time @ ''.xlsx'',
                       mime = ''application/vnd.openxmlformats-officedocument.spreadsheetml.sheet'',
                       num_groups = groups,
                       total_entries = total\<rparr>)))"

section \<open>The query handler\<close>

text \<open>
  The request body of \<^verbatim>\<open>query_aws_api\<close> (lines 61 to 68) and the JSON object of a
  successful answer; the handler reads the answer with \<^verbatim>\<open>.get\<close>, so every key may be
  missing.
\<close>

record ('v, 't) payload =
  asset_id :: string
  timeframes :: "string list"
  report_date :: string
  scope_days :: int
  custom_ranges :: "(string \<times> range_entry) list"
  measurements :: "('v, 't) measurement list"

record ('v, 't) result =
  data :: "('v, 't) row list option"
  count :: "int option"
  hlc_records_processed :: "int option"

record ('v, 't) http_response =
  status_code :: nat
  json :: "exn + ('v, 't) result"
  body_text :: string

text \<open>\<^verbatim>\<open>str(e)\<close> of a caught exception.\<close>

fun exn_text :: "exn \<Rightarrow> string" where
  "exn_text (KeyError k) = [CHR 0x27] @ k @ [CHR 0x27]"
| "exn_text (Exception msg) = msg"

text \<open>
  \<^verbatim>\<open>query_aws_api\<close>, lines 58 to 77. The HTTP client \<^verbatim>\<open>requests.post\<close> is the parameter
  \<open>post\<close>; it raises (timeout, transport failure) or answers.
\<close>

definition query_aws_api ::
  "(('v, 't) payload \<Rightarrow> exn + ('v, 't) http_response) \<Rightarrow> ('v, 't) payload \<Rightarrow> string + ('v, 't) result" where
  "query_aws_api post p =
     (case post p of
        Inl e \<Rightarrow> Inl (exn_text e)
      | Inr response \<Rightarrow>
          if status_code response = 200
          then (case json response of Inl e \<Rightarrow> Inl (exn_text e) | Inr r \<Rightarrow> Inr r)
          else Inl (''API returned status '' @ show_nat (status_code response) @ '': '' @ body_text response))"

text \<open>
  The values of the widgets when the button is pressed. \<open>measurement_file\<close> is \<open>None\<close>
  when nothing was uploaded, otherwise what \<^verbatim>\<open>pd.read_excel\<close> makes of the upload.
\<close>

record ('v, 't) form =
  form_asset_id :: string
  measurement_file :: "(exn + ('v, 't) frame) option"
  report_time :: datetime
  ranges :: range_widgets
  form_scope_days :: int
  form_timeframes :: "string list"

text \<open>
  What one press of the button does that can be observed: the messages shown, the request
  bodies handed to the HTTP client, and the download button, if one is rendered. Elapsed
  time, the metrics row and the table display are left out.
\<close>

datatype ui_event = StError string | StInfo string | StWarning string

record ('v, 't) outcome =
  events :: "ui_event list"
  api_calls :: "('v, 't) payload list"
  offered :: "('v, 't) download option"

text \<open>
  The handler of the button, lines 277 to 373. \<^verbatim>\<open>st.stop()\<close> ends the run. The frame
  built from the answer is the only object of the store.
\<close>

definition run_aws_query ::
  "(('v, 't) payload \<Rightarrow> exn + ('v, 't) http_response) \<Rightarrow> (bool \<Rightarrow> ('v, 't) cell \<Rightarrow> 't option)
     \<Rightarrow> (('v, 't) cell \<Rightarrow> string) \<Rightarrow> ('v, 't) form \<Rightarrow> ('v, 't) outcome" where
  "run_aws_query post parse fmt f =
     (case measurement_file f of
        None \<Rightarrow>
          \<lparr>events = [StError ''Please upload a measurement file''], api_calls = [], offered = None\<rparr>
      | Some read_excel \<Rightarrow>
          (case load_measurements fmt read_excel of
             Inl e \<Rightarrow>
               \<lparr>events = [StError (''Error loading measurements: '' @ exn_text e)],
                api_calls = [], offered = None\<rparr>
           | Inr ms \<Rightarrow>
               (let loaded = StInfo (''Loaded '' @ show_nat (length ms) @ '' measurements'');
                    ranges_dict = build_custom_ranges (ranges f)
                in if ranges_dict = []
                   then \<lparr>events = [loaded, StError ''Please enable at least one custom range''],
                         api_calls = [], offered = None\<rparr>
                   else
                     (let p = \<lparr>asset_id = form_asset_id f,
                               timeframes = form_timeframes f,
                               report_date = report_date_str (report_time f),
                               scope_days = form_scope_days f,
                               custom_ranges = ranges_dict,
                               measurements = ms\<rparr>
                      in case query_aws_api post p of
                           Inl reason \<Rightarrow>
                             \<lparr>events = [loaded, StError (''Query failed: '' @ reason)],
                              api_calls = [p], offered = None\<rparr>
                         | Inr r \<Rightarrow>
                             if (case count r of Some c \<Rightarrow> c | None \<Rightarrow> 0) > 0
                             then
                               (let df = DataFrame (case data r of Some rows \<Rightarrow> rows | None \<Rightarrow> []);
                                    traveler_reports = [(''Grp_All'', Frame 0)];
                                    (h, button) = render_unified_export parse traveler_reports
                                                    (report_time f) (form_asset_id f) [df]
                                in \<lparr>events = [loaded], api_calls = [p], offered = button\<rparr>)
                             else
                               \<lparr>events = [loaded, StWarning ''No traveler entries found matching the criteria''],
                                api_calls = [p], offered = None\<rparr>))))"

section \<open>The export, by value\<close>

text \<open>
  The frames the export computes, as functions of the frame a group refers to. They are
  used to state what the object-level code above produces: \<open>coerced_frame\<close> is the frame
  \<^verbatim>\<open>_coerce_arrival_datetime\<close> returns, \<open>written_sheet\<close> is what reaches the writer for one
  group, \<open>live_groups\<close> are the groups that pass the test of line 108, and \<open>refs_ok\<close> says
  that every reference of the dictionary points into the store.
\<close>

definition coerced_frame ::
  "(bool \<Rightarrow> ('v, 't) cell \<Rightarrow> 't option) \<Rightarrow> ('v, 't) frame \<Rightarrow> ('v, 't) frame" where
  "coerced_frame parse df =
     (if ''Arrival_datetime'' \<in> set (columns df)
      then setitem ''Arrival'' (to_datetime parse False (series df ''Arrival_datetime'')) df
      else if ''Arrival'' \<in> set (columns df)
      then setitem ''Arrival'' (to_datetime parse True (series df ''Arrival'')) df
      else df)"

definition written_sheet ::
  "(bool \<Rightarrow> ('v, 't) cell \<Rightarrow> 't option) \<Rightarrow> string \<Rightarrow> ('v, 't) frame \<Rightarrow> ('v, 't) sheet" where
  "written_sheet parse group_name df =
     (let export_data = coerced_frame parse (drop_columns [''Group''] df)
      in \<lparr>sheet_name = sheet_name_of group_name,
          table = export_data,
          header = columns export_data,
          date_column = (if ''Arrival'' \<in> set (columns export_data)
                         then Some (get_loc ''Arrival'' (columns export_data)) else None)\<rparr>)"

fun live_groups :: "('v, 't) store \<Rightarrow> (string \<times> pyobj) list \<Rightarrow> (string \<times> addr) list" where
  "live_groups h [] = []"
| "live_groups h ((g, NotAFrame) # rest) = live_groups h rest"
| "live_groups h ((g, Frame a) # rest) =
     (if empty_frame (h ! a) then live_groups h rest else (g, a) # live_groups h rest)"

fun refs_ok :: "('v, 't) store \<Rightarrow> (string \<times> pyobj) list \<Rightarrow> bool" where
  "refs_ok h [] = True"
| "refs_ok h ((g, NotAFrame) # rest) = refs_ok h rest"
| "refs_ok h ((g, Frame a) # rest) = (a < length h \<and> refs_ok h rest)"

section \<open>Example inputs\<close>

text \<open>
  Concrete inputs for evaluating the handler: the two rows of the sort example (a
  \<^verbatim>\<open>Low 1\<close> row followed by a \<^verbatim>\<open>High 1\<close> row), a parser that reads the two dates of those
  rows, a printer for text cells, an HTTP client that answers 200 with given rows and
  count, a filled-in form (asset NQ, one measurement, High 1 ticked at 21000, all three
  timeframes), and a range panel in which no slot is both ticked and positive.
\<close>

definition spec_rows :: "(string, datetime) row list" where
  "spec_rows =
     [[(''Range'', Val ''Low 1''), (''Group'', Val ''A''), (''Output'', Val ''2''),
       (''Arrival'', Val ''2024-01-02'')],
      [(''Range'', Val ''High 1''), (''Group'', Val ''A''), (''Output'', Val ''1''),
       (''Arrival'', Val ''2024-01-01'')]]"

definition example_parse :: "bool \<Rightarrow> (string, datetime) cell \<Rightarrow> datetime option" where
  "example_parse infer c =
     (if c = Val ''2024-01-02'' then Some \<lparr>year = 2024, month = Jan, day = 2, hour = 0, minute = 0\<rparr>
      else if c = Val ''2024-01-01'' then Some \<lparr>year = 2024, month = Jan, day = 1, hour = 0, minute = 0\<rparr>
      else None)"

definition example_fmt :: "(string, datetime) cell \<Rightarrow> string" where
  "example_fmt c = (case c of Val s \<Rightarrow> s | _ \<Rightarrow> ''nan'')"

definition example_post ::
  "(string, datetime) row list \<Rightarrow> int \<Rightarrow> (string, datetime) payload
     \<Rightarrow> exn + (string, datetime) http_response" where
  "example_post rows n p =
     Inr \<lparr>status_code = 200,
          json = Inr \<lparr>data = Some rows, count = Some n, hlc_records_processed = Some 0\<rparr>,
          body_text = []\<rparr>"

definition example_form :: "(string, datetime) form" where
  "example_form =
     \<lparr>form_asset_id = ''NQ'',
      measurement_file = Some (Inr \<lparr>nrows = 1, cols = [(''M value'', [Val ''5''])]\<rparr>),
      report_time = \<lparr>year = 2024, month = Mar, day = 5, hour = 18, minute = 0\<rparr>,
      ranges = \<lparr>use_high1 = True, high1_input = 21000, use_high2 = False, high2_input = 0,
                use_low1 = False, low1_input = 0, use_low2 = False, low2_input = 0\<rparr>,
      form_scope_days = 20,
      form_timeframes = [''3m'', ''5m'', ''15m'']\<rparr>"

definition no_active_ranges :: range_widgets where
  "no_active_ranges =
     \<lparr>use_high1 = True, high1_input = 0, use_high2 = False, high2_input = 0,
      use_low1 = False, low1_input = 0, use_low2 = False, low2_input = 0\<rparr>"

text \<open>
  Measurement tables: one with a value column and no name column, one with both (under
  their last accepted spellings), one with neither, and a printer for number cells.
\<close>

definition values_only_table :: "(nat, nat) frame" where
  "values_only_table =
     \<lparr>nrows = 3, cols = [(''Note'', [Val 1, Val 2, Val 3]), (''M Value'', [Val 5, Val 7, Val 9])]\<rparr>"

definition named_table :: "(nat, nat) frame" where
  "named_table =
     \<lparr>nrows = 2, cols = [(''M_name'', [Val 11, Val 12]), (''m_value'', [Val 5, Val 7])]\<rparr>"

definition unrecognised_table :: "(nat, nat) frame" where
  "unrecognised_table = \<lparr>nrows = 2, cols = [(''Note'', [Val 1, Val 2])]\<rparr>"

definition print_cell :: "(nat, nat) cell \<Rightarrow> string" where
  "print_cell c = (case c of Val n \<Rightarrow> show_nat n | _ \<Rightarrow> ''nan'')"

section \<open>Evaluation helpers\<close>

lemma digit_chars:
  "char_of (48::nat) = CHR ''0''" "char_of (49::nat) = CHR ''1''" "char_of (50::nat) = CHR ''2''"
  "char_of (51::nat) = CHR ''3''" "char_of (52::nat) = CHR ''4''" "char_of (53::nat) = CHR ''5''"
  "char_of (54::nat) = CHR ''6''" "char_of (55::nat) = CHR ''7''" "char_of (56::nat) = CHR ''8''"
  "char_of (57::nat) = CHR ''9''"
  by code_simp+

section \<open>Properties of measurement loading\<close>

lemma m_val_col_get:
  "m_val_col row = Some vc \<Longrightarrow> \<exists>v. row_get row vc = Inr v"
  by (auto simp: m_val_col_def row_get_def index_def find_Some_iff map_of_eq_None_iff
           split: option.splits)

lemma m_name_col_get:
  "m_name_col row = Some nc \<Longrightarrow> \<exists>v. row_get row nc = Inr v"
  by (auto simp: m_name_col_def row_get_def index_def find_Some_iff map_of_eq_None_iff
           split: option.splits)

text \<open>The loop never takes an error branch, and only ever appends to what it was given.\<close>

lemma measurements_loop_shape:
  "\<exists>ms. \<forall>acc. measurements_loop fmt rows acc = Inr (acc @ ms)"
proof (induction rows)
  case Nil
  show ?case by simp
next
  case (Cons row rest)
  then obtain ms where ms: "\<And>acc. measurements_loop fmt rest acc = Inr (acc @ ms)" by blast
  show ?case
  proof (cases "m_val_col row")
    case None
    then show ?thesis using ms by auto
  next
    case (Some vc)
    then obtain v where v: "row_get row vc = Inr v" using m_val_col_get by blast
    show ?thesis
    proof (cases "m_name_col row")
      case None
      show ?thesis
        by (rule exI [of _ "\<lparr>M_value = v, M_name = Text (''M'' @ fmt v)\<rparr> # ms"])
           (simp add: Some v None ms)
    next
      case (Some nc)
      then obtain n where n: "row_get row nc = Inr n" using m_name_col_get by blast
      show ?thesis
        by (rule exI [of _ "\<lparr>M_value = v, M_name = FromColumn n\<rparr> # ms"])
           (simp add: \<open>m_val_col row = Some vc\<close> v Some n ms)
    qed
  qed
qed

lemma measurements_loop_total: "\<exists>ms. measurements_loop fmt rows [] = Inr ms"
  using measurements_loop_shape [of fmt rows] by auto

lemma measurements_loop_acc:
  "measurements_loop fmt rows [] = Inr ms \<Longrightarrow> measurements_loop fmt rows acc = Inr (acc @ ms)"
  using measurements_loop_shape [of fmt rows] by auto

lemma measurements_loop_length:
  "measurements_loop fmt rows acc = Inr ms \<Longrightarrow> length ms \<le> length acc + length rows"
proof (induction rows arbitrary: acc)
  case Nil
  then show ?case by simp
next
  case (Cons row rest)
  show ?case
    using Cons.prems Cons.IH [of acc] Cons.IH [of "acc @ [_]"]
    by (fastforce split: option.splits sum.splits)
qed

lemma measurements_loop_append:
  assumes "measurements_loop fmt xs [] = Inr a" "measurements_loop fmt ys [] = Inr b"
  shows "measurements_loop fmt (xs @ ys) acc = Inr (acc @ a @ b)"
  using assms
proof (induction xs arbitrary: acc a)
  case Nil
  then show ?case by (simp add: measurements_loop_acc)
next
  case (Cons row rest)
  obtain r where r: "measurements_loop fmt rest [] = Inr r"
    using measurements_loop_total by blast
  have IH: "\<And>acc. measurements_loop fmt (rest @ ys) acc = Inr (acc @ r @ b)"
    using Cons.IH [OF r Cons.prems(2)] .
  show ?case
  proof (cases "m_val_col row")
    case None
    then show ?thesis using Cons.prems(1) r IH by simp
  next
    case (Some vc)
    then obtain v where v: "row_get row vc = Inr v" using m_val_col_get by blast
    show ?thesis
    proof (cases "m_name_col row")
      case None
      then show ?thesis using Cons.prems(1) Some v IH
        by (simp add: measurements_loop_acc [OF r])
    next
      case (Some nc)
      then obtain n where n: "row_get row nc = Inr n" using m_name_col_get by blast
      then show ?thesis using Cons.prems(1) \<open>m_val_col row = Some vc\<close> Some v IH
        by (simp add: measurements_loop_acc [OF r])
    qed
  qed
qed

lemma load_measurements_total: "\<exists>ms. load_measurements fmt (Inr df) = Inr ms"
  using measurements_loop_total [of fmt "iterrows df"] by (simp add: load_measurements_def)

text \<open>
  The loop in closed form: every row contributes nothing or one entry, in row order. On a
  table every row carries the table's column labels, so the columns are resolved once for
  the whole table.
\<close>

lemma row_get_json_get: "row_get row c = Inr v \<Longrightarrow> json_get row c = v"
  by (auto simp: row_get_def json_get_def split: option.splits)

lemma measurements_loop_closed:
  "measurements_loop fmt rows acc =
     Inr (acc @ concat (map (\<lambda>row. case m_val_col row of
                                None \<Rightarrow> []
                              | Some vc \<Rightarrow>
                                  [\<lparr>M_value = json_get row vc,
                                    M_name = (case m_name_col row of
                                                None \<Rightarrow> Text (''M'' @ fmt (json_get row vc))
                                              | Some nc \<Rightarrow> FromColumn (json_get row nc))\<rparr>]) rows))"
proof (induction rows arbitrary: acc)
  case Nil
  show ?case by simp
next
  case (Cons row rest)
  show ?case
  proof (cases "m_val_col row")
    case None
    then show ?thesis by (simp add: Cons.IH)
  next
    case (Some vc)
    then obtain v where v: "row_get row vc = Inr v" using m_val_col_get by blast
    show ?thesis
    proof (cases "m_name_col row")
      case None
      then show ?thesis using Some v row_get_json_get [OF v] by (simp add: Cons.IH)
    next
      case (Some nc)
      then obtain n where n: "row_get row nc = Inr n" using m_name_col_get by blast
      show ?thesis
        using \<open>m_val_col row = Some vc\<close> Some v n row_get_json_get [OF v] row_get_json_get [OF n]
        by (simp add: Cons.IH)
    qed
  qed
qed

lemma index_iterrows: "i < nrows df \<Longrightarrow> index (iterrows df ! i) = columns df"
  by (simp add: iterrows_def index_def columns_def comp_def case_prod_unfold)

lemma length_iterrows: "length (iterrows df) = nrows df"
  by (simp add: iterrows_def)

lemma json_get_iterrows:
  "i < nrows df \<Longrightarrow> k \<in> set (columns df) \<Longrightarrow> json_get (iterrows df ! i) k = series df k ! i"
proof -
  assume i: "i < nrows df" and k: "k \<in> set (columns df)"
  have "map_of (map (\<lambda>(n, vs). (n, vs ! i)) xs) k = map_option (\<lambda>vs. vs ! i) (map_of xs k)"
    for xs :: "(string \<times> ('a, 'b) cell list) list"
    by (induction xs) auto
  then have get: "map_of (map (\<lambda>(n, vs). (n, vs ! i)) (cols df)) k
                    = map_option (\<lambda>vs. vs ! i) (map_of (cols df) k)" .
  have "map_of (cols df) k \<noteq> None"
    using k by (simp add: columns_def map_of_eq_None_iff)
  then obtain vs where vs: "map_of (cols df) k = Some vs" by blast
  show ?thesis
    using i by (simp add: json_get_def series_def iterrows_def get vs)
qed

lemma find_mem: "find P xs = Some x \<Longrightarrow> P x"
  by (auto simp: find_Some_iff)

lemma index_row_of_table: "row \<in> set (iterrows df) \<Longrightarrow> index row = columns df"
  by (auto simp: iterrows_def index_def columns_def comp_def case_prod_unfold)

lemma concat_map_all_Nil: "(\<And>x. x \<in> set xs \<Longrightarrow> f x = []) \<Longrightarrow> concat (map f xs) = []"
  by (induction xs) auto

lemma load_measurements_no_value_column:
  assumes "find (\<lambda>c. c \<in> set (columns df)) m_val_spellings = None"
  shows "load_measurements fmt (Inr df) = Inr []"
proof -
  have none: "m_val_col row = None" if "row \<in> set (iterrows df)" for row
    unfolding m_val_col_def index_row_of_table [OF that] by (rule assms)
  have "concat (map (\<lambda>row. case m_val_col row of
                                None \<Rightarrow> []
                              | Some vc \<Rightarrow>
                                  [\<lparr>M_value = json_get row vc,
                                    M_name = (case m_name_col row of
                                                None \<Rightarrow> Text (''M'' @ fmt (json_get row vc))
                                              | Some nc \<Rightarrow> FromColumn (json_get row nc))\<rparr>])
                (iterrows df)) = []"
    by (rule concat_map_all_Nil) (simp only: none option.case)
  then show ?thesis
    by (simp only: load_measurements_def measurements_loop_closed sum.case append_Nil)
qed


lemma load_measurements_value_column:
  assumes vc: "find (\<lambda>c. c \<in> set (columns df)) m_val_spellings = Some vc"
  shows "\<exists>ms. load_measurements fmt (Inr df) = Inr ms \<and> length ms = nrows df
           \<and> (\<forall>i < nrows df. M_value (ms ! i) = series df vc ! i
                \<and> M_name (ms ! i) =
                    (case find (\<lambda>c. c \<in> set (columns df)) m_name_spellings of
                       None \<Rightarrow> Text (''M'' @ fmt (series df vc ! i))
                     | Some nc \<Rightarrow> FromColumn (series df nc ! i)))"
proof -
  let ?entry = "\<lambda>row. \<lparr>M_value = json_get row vc,
                        M_name = (case find (\<lambda>c. c \<in> set (columns df)) m_name_spellings of
                                    None \<Rightarrow> Text (''M'' @ fmt (json_get row vc))
                                  | Some nc \<Rightarrow> FromColumn (json_get row nc))\<rparr>"
  have vin: "vc \<in> set (columns df)" using find_mem [OF vc] .
  have row: "(case m_val_col row of
                                None \<Rightarrow> []
                              | Some vc \<Rightarrow>
                                  [\<lparr>M_value = json_get row vc,
                                    M_name = (case m_name_col row of
                                                None \<Rightarrow> Text (''M'' @ fmt (json_get row vc))
                                              | Some nc \<Rightarrow> FromColumn (json_get row nc))\<rparr>])
             = [?entry row]" if "row \<in> set (iterrows df)" for row
    unfolding m_val_col_def m_name_col_def index_row_of_table [OF that] vc by simp
  have "map (\<lambda>row. case m_val_col row of
                                None \<Rightarrow> []
                              | Some vc \<Rightarrow>
                                  [\<lparr>M_value = json_get row vc,
                                    M_name = (case m_name_col row of
                                                None \<Rightarrow> Text (''M'' @ fmt (json_get row vc))
                                              | Some nc \<Rightarrow> FromColumn (json_get row nc))\<rparr>])
                (iterrows df) = map (\<lambda>row. [?entry row]) (iterrows df)"
    by (rule map_cong [OF refl row])
  then have ms: "load_measurements fmt (Inr df) = Inr (map ?entry (iterrows df))"
    by (simp only: load_measurements_def measurements_loop_closed sum.case append_Nil
          concat_map_singleton)
  have "M_value (map ?entry (iterrows df) ! i) = series df vc ! i
        \<and> M_name (map ?entry (iterrows df) ! i) =
                    (case find (\<lambda>c. c \<in> set (columns df)) m_name_spellings of
                       None \<Rightarrow> Text (''M'' @ fmt (series df vc ! i))
                     | Some nc \<Rightarrow> FromColumn (series df nc ! i))" if i: "i < nrows df" for i
  proof (cases "find (\<lambda>c. c \<in> set (columns df)) m_name_spellings")
    case None
    then show ?thesis using i vin by (simp add: length_iterrows json_get_iterrows)
  next
    case (Some nc)
    then have "nc \<in> set (columns df)" using find_mem by fast
    then show ?thesis using i vin Some by (simp add: length_iterrows json_get_iterrows)
  qed
  then show ?thesis using ms by (simp add: length_iterrows)
qed

lemma m_cols_get:
  "m_val_col row = Some vc \<Longrightarrow> m_name_col row = Some nc \<Longrightarrow>
   \<exists>v n. row_get row vc = Inr v \<and> row_get row nc = Inr n
     \<and> measurements_loop fmt [row] [] = Inr [\<lparr>M_value = v, M_name = FromColumn n\<rparr>]"
proof -
  assume v: "m_val_col row = Some vc" and n: "m_name_col row = Some nc"
  obtain a where a: "row_get row vc = Inr a" using m_val_col_get [OF v] by blast
  obtain b where b: "row_get row nc = Inr b" using m_name_col_get [OF n] by blast
  show ?thesis using v n a b by simp
qed

text \<open>
  Claim C4, as amended. The value column and the name column are each resolved against a
  fixed list of four spellings, consulted in the listed order, and a label matches only
  when it equals a spelling character for character: the result is the first spelling
  that is a label of the row, and nothing is found exactly when no spelling is a label.
  (The lists contain some case and spacing variants; letter case is not folded.)
\<close>

theorem column_resolution_first_exact_spelling:
  "(m_val_col row = None \<longleftrightarrow> set m_val_spellings \<inter> set (index row) = {})
   \<and> (\<forall>c. m_val_col row = Some c \<longrightarrow>
          (\<exists>i < length m_val_spellings. m_val_spellings ! i = c \<and> c \<in> set (index row)
             \<and> (\<forall>j < i. m_val_spellings ! j \<notin> set (index row))))
   \<and> (m_name_col row = None \<longleftrightarrow> set m_name_spellings \<inter> set (index row) = {})
   \<and> (\<forall>c. m_name_col row = Some c \<longrightarrow>
          (\<exists>i < length m_name_spellings. m_name_spellings ! i = c \<and> c \<in> set (index row)
             \<and> (\<forall>j < i. m_name_spellings ! j \<notin> set (index row))))"
  unfolding m_val_col_def m_name_col_def find_None_iff find_Some_iff
  by blast

text \<open>
  A row labelled \<^verbatim>\<open>m_value\<close>, \<^verbatim>\<open>M Value\<close>, \<^verbatim>\<open>m_name\<close>: the value column is \<^verbatim>\<open>M Value\<close>, the
  earlier of the two spellings present, whatever the order of the labels in the row.
\<close>

theorem column_resolution_first_exact_spelling_witness:
  "m_val_col [(''m_value'', Val (1::nat)), (''M Value'', Val 2), (''m_name'', Val 3)
              :: string \<times> (nat, nat) cell] = Some ''M Value''
   \<and> (\<exists>i < length m_val_spellings. m_val_spellings ! i = ''M Value''
         \<and> (\<forall>j < i. m_val_spellings ! j \<notin> {''m_value'', ''M Value'', ''m_name''}))
   \<and> m_name_col [(''m_value'', Val (1::nat)), (''M Value'', Val 2), (''m_name'', Val 3)
              :: string \<times> (nat, nat) cell] = Some ''m_name''"
proof -
  have v: "m_val_col [(''m_value'', Val (1::nat)), (''M Value'', Val 2), (''m_name'', Val 3)
              :: string \<times> (nat, nat) cell] = Some ''M Value''"
    by (simp add: m_val_col_def m_val_spellings_def index_def)
  have n: "m_name_col [(''m_value'', Val (1::nat)), (''M Value'', Val 2), (''m_name'', Val 3)
              :: string \<times> (nat, nat) cell] = Some ''m_name''"
    by (simp add: m_name_col_def m_name_spellings_def index_def)
  have "\<forall>c. m_val_col [(''m_value'', Val (1::nat)), (''M Value'', Val 2), (''m_name'', Val 3)
              :: string \<times> (nat, nat) cell] = Some c \<longrightarrow>
          (\<exists>i < length m_val_spellings. m_val_spellings ! i = c
             \<and> c \<in> set (index [(''m_value'', Val (1::nat)), (''M Value'', Val 2), (''m_name'', Val 3)
              :: string \<times> (nat, nat) cell])
             \<and> (\<forall>j < i. m_val_spellings ! j \<notin> set (index [(''m_value'', Val (1::nat)),
                    (''M Value'', Val 2), (''m_name'', Val 3) :: string \<times> (nat, nat) cell])))"
    using column_resolution_first_exact_spelling
      [of "[(''m_value'', Val (1::nat)), (''M Value'', Val 2), (''m_name'', Val 3)]"]
    by blast
  from this [rule_format, OF v] show ?thesis
    using v n by (simp add: index_def)
qed

text \<open>
  Claim C4 as stated fails: the label \<^verbatim>\<open>M VALUE\<close> differs from the accepted spelling
  \<^verbatim>\<open>M value\<close> only in letter case, yet no value column is found and the row is dropped.
\<close>

theorem column_matching_case_insensitive_counterexample:
  "lower ''M VALUE'' = lower ''M value''
   \<and> m_val_col [(''M VALUE'', Val (5::nat)) :: string \<times> (nat, nat) cell] = None
   \<and> load_measurements (\<lambda>c. ''5'')
        (Inr \<lparr>nrows = 1, cols = [(''M VALUE'', [Val (5::nat) :: (nat, nat) cell])]\<rparr>) = Inr []"
proof -
  have "lower ''M VALUE'' = lower ''M value''" by code_simp
  moreover have "m_val_col [(''M VALUE'', Val (5::nat)) :: string \<times> (nat, nat) cell] = None"
    by (simp add: m_val_col_def m_val_spellings_def index_def)
  ultimately show ?thesis
    by (simp add: load_measurements_def iterrows_def)
qed

text \<open>
  Claim C8. Loading a table never raises and yields at most one entry per row; a table
  without rows yields the empty list. A table none of whose columns is a value column
  yields the empty list. A table with a value column yields exactly one entry per row, and
  entry number \<open>i\<close> comes from row number \<open>i\<close>: its value is the value column at row
  \<open>i\<close>, and its name is the name column at row \<open>i\<close> or, when the table has no name
  column, \<^verbatim>\<open>M\<close> followed by the printed value. For rows taken one by one: the entries of a
  run of rows followed by another run are the entries of the first followed by the entries
  of the second; a row without a value column contributes nothing; a row with a value
  column and no name column contributes its value under the synthesized name; a row with
  both contributes its value under the content of its name column.
\<close>

theorem measurement_normalizer_order_tolerant:
  "(\<exists>ms. load_measurements fmt (Inr df) = Inr ms \<and> length ms \<le> nrows df)
   \<and> load_measurements fmt (Inr \<lparr>nrows = 0, cols = cs\<rparr>) = Inr []
   \<and> (find (\<lambda>c. c \<in> set (columns df')) m_val_spellings = None \<longrightarrow>
        load_measurements fmt (Inr df') = Inr [])
   \<and> (\<forall>vc. find (\<lambda>c. c \<in> set (columns df)) m_val_spellings = Some vc \<longrightarrow>
        (\<exists>ms. load_measurements fmt (Inr df) = Inr ms \<and> length ms = nrows df
           \<and> (\<forall>i < nrows df. M_value (ms ! i) = series df vc ! i
                \<and> M_name (ms ! i) =
                    (case find (\<lambda>c. c \<in> set (columns df)) m_name_spellings of
                       None \<Rightarrow> Text (''M'' @ fmt (series df vc ! i))
                     | Some nc \<Rightarrow> FromColumn (series df nc ! i)))))
   \<and> (\<exists>a b. measurements_loop fmt xs [] = Inr a \<and> measurements_loop fmt ys [] = Inr b
          \<and> measurements_loop fmt (xs @ ys) [] = Inr (a @ b))
   \<and> (m_val_col r = None \<longrightarrow> measurements_loop fmt [r] [] = Inr [])
   \<and> (\<forall>vc. m_val_col r' = Some vc \<and> m_name_col r' = None \<longrightarrow>
         (\<exists>v. row_get r' vc = Inr v
            \<and> measurements_loop fmt [r'] [] = Inr [\<lparr>M_value = v, M_name = Text (''M'' @ fmt v)\<rparr>]))
   \<and> (\<forall>vc nc. m_val_col r'' = Some vc \<and> m_name_col r'' = Some nc \<longrightarrow>
         (\<exists>v n. row_get r'' vc = Inr v \<and> row_get r'' nc = Inr n
            \<and> measurements_loop fmt [r''] [] = Inr [\<lparr>M_value = v, M_name = FromColumn n\<rparr>]))"
proof (intro conjI)
  obtain ms where ms: "measurements_loop fmt (iterrows df) [] = Inr ms"
    using measurements_loop_total by blast
  have "length ms \<le> nrows df"
    using measurements_loop_length [OF ms] by (simp add: iterrows_def)
  then show "\<exists>ms. load_measurements fmt (Inr df) = Inr ms \<and> length ms \<le> nrows df"
    using ms by (simp add: load_measurements_def)
next
  show "load_measurements fmt (Inr \<lparr>nrows = 0, cols = cs\<rparr>) = Inr []"
    by (simp add: load_measurements_def iterrows_def)
next
  show "find (\<lambda>c. c \<in> set (columns df')) m_val_spellings = None \<longrightarrow>
        load_measurements fmt (Inr df') = Inr []"
    using load_measurements_no_value_column by blast
next
  show "\<forall>vc. find (\<lambda>c. c \<in> set (columns df)) m_val_spellings = Some vc \<longrightarrow>
        (\<exists>ms. load_measurements fmt (Inr df) = Inr ms \<and> length ms = nrows df
           \<and> (\<forall>i < nrows df. M_value (ms ! i) = series df vc ! i
                \<and> M_name (ms ! i) =
                    (case find (\<lambda>c. c \<in> set (columns df)) m_name_spellings of
                       None \<Rightarrow> Text (''M'' @ fmt (series df vc ! i))
                     | Some nc \<Rightarrow> FromColumn (series df nc ! i))))"
    by (intro allI impI) (rule load_measurements_value_column)
next
  obtain a where a: "measurements_loop fmt xs [] = Inr a"
    using measurements_loop_total by blast
  obtain b where b: "measurements_loop fmt ys [] = Inr b"
    using measurements_loop_total by blast
  show "\<exists>a b. measurements_loop fmt xs [] = Inr a \<and> measurements_loop fmt ys [] = Inr b
          \<and> measurements_loop fmt (xs @ ys) [] = Inr (a @ b)"
    using a b measurements_loop_append [OF a b, of "[]"] by simp
next
  show "m_val_col r = None \<longrightarrow> measurements_loop fmt [r] [] = Inr []"
    by simp
next
  show "\<forall>vc. m_val_col r' = Some vc \<and> m_name_col r' = None \<longrightarrow>
         (\<exists>v. row_get r' vc = Inr v
            \<and> measurements_loop fmt [r'] [] = Inr [\<lparr>M_value = v, M_name = Text (''M'' @ fmt v)\<rparr>])"
  proof (intro allI impI)
    fix vc
    assume h: "m_val_col r' = Some vc \<and> m_name_col r' = None"
    then obtain v where "row_get r' vc = Inr v" using m_val_col_get by blast
    then show "\<exists>v. row_get r' vc = Inr v
            \<and> measurements_loop fmt [r'] [] = Inr [\<lparr>M_value = v, M_name = Text (''M'' @ fmt v)\<rparr>]"
      using h by simp
  qed
next
  show "\<forall>vc nc. m_val_col r'' = Some vc \<and> m_name_col r'' = Some nc \<longrightarrow>
         (\<exists>v n. row_get r'' vc = Inr v \<and> row_get r'' nc = Inr n
            \<and> measurements_loop fmt [r''] [] = Inr [\<lparr>M_value = v, M_name = FromColumn n\<rparr>])"
    using m_cols_get by blast
qed

text \<open>
  Three rows with values 5, 7, 9 and no name column load as \<^verbatim>\<open>M5\<close>, \<^verbatim>\<open>M7\<close>, \<^verbatim>\<open>M9\<close> in that
  order; two rows with a name column keep their names in order; a table with only a
  \<^verbatim>\<open>Note\<close> column loads as the empty list; and the same for single rows.
\<close>

theorem measurement_normalizer_order_tolerant_witness:
  "(\<exists>ms. load_measurements print_cell (Inr values_only_table) = Inr ms \<and> length ms = 3
      \<and> M_value (ms ! 0) = Val 5 \<and> M_name (ms ! 0) = Text ''M5''
      \<and> M_value (ms ! 1) = Val 7 \<and> M_name (ms ! 1) = Text ''M7''
      \<and> M_value (ms ! 2) = Val 9 \<and> M_name (ms ! 2) = Text ''M9'')
   \<and> (\<exists>ms. load_measurements print_cell (Inr named_table) = Inr ms \<and> length ms = 2
      \<and> M_value (ms ! 0) = Val 5 \<and> M_name (ms ! 0) = FromColumn (Val 11)
      \<and> M_value (ms ! 1) = Val 7 \<and> M_name (ms ! 1) = FromColumn (Val 12))
   \<and> load_measurements print_cell (Inr unrecognised_table) = Inr []
   \<and> (\<exists>a b. measurements_loop print_cell [[(''Note'', Val 1), (''M Value'', Val 5)]] [] = Inr a
          \<and> measurements_loop print_cell [[(''M_name'', Val 11), (''m_value'', Val 7)]] [] = Inr b
          \<and> measurements_loop print_cell
               ([[(''Note'', Val 1), (''M Value'', Val 5)]] @ [[(''M_name'', Val 11), (''m_value'', Val 7)]]) []
              = Inr (a @ b))
   \<and> measurements_loop print_cell [[(''Note'', Val 1)]] [] = Inr []
   \<and> measurements_loop print_cell [[(''Note'', Val 1), (''M Value'', Val 5)]] []
        = Inr [\<lparr>M_value = Val 5, M_name = Text ''M5''\<rparr>]
   \<and> measurements_loop print_cell [[(''M_name'', Val 11), (''m_value'', Val 7)]] []
        = Inr [\<lparr>M_value = Val 7, M_name = FromColumn (Val 11)\<rparr>]"
proof -
  note thmA = measurement_normalizer_order_tolerant
      [where fmt = print_cell and df = values_only_table and df' = unrecognised_table
         and cs = "[]" and xs = "[[(''Note'', Val 1), (''M Value'', Val 5)]]"
         and ys = "[[(''M_name'', Val 11), (''m_value'', Val 7)]]"
         and r = "[(''Note'', Val 1)]" and r' = "[(''Note'', Val 1), (''M Value'', Val 5)]"
         and r'' = "[(''M_name'', Val 11), (''m_value'', Val 7)]"]
  note thmB = measurement_normalizer_order_tolerant
      [where fmt = print_cell and df = named_table and df' = unrecognised_table
         and cs = "[]" and xs = "[]" and ys = "[]" and r = "[]" and r' = "[]" and r'' = "[]"]
  have digits: "show_nat 5 = ''5''" "show_nat 7 = ''7''" "show_nat 9 = ''9''"
    by code_simp+
  have fA: "find (\<lambda>c. c \<in> set (columns values_only_table)) m_val_spellings = Some ''M Value''"
    and nA: "find (\<lambda>c. c \<in> set (columns values_only_table)) m_name_spellings = None"
    by (simp_all add: columns_def values_only_table_def m_val_spellings_def m_name_spellings_def)
  have fB: "find (\<lambda>c. c \<in> set (columns named_table)) m_val_spellings = Some ''m_value''"
    and nB: "find (\<lambda>c. c \<in> set (columns named_table)) m_name_spellings = Some ''M_name''"
    by (simp_all add: columns_def named_table_def m_val_spellings_def m_name_spellings_def)
  have fC: "find (\<lambda>c. c \<in> set (columns unrecognised_table)) m_val_spellings = None"
    by (simp add: columns_def unrecognised_table_def m_val_spellings_def)
  have sA: "series values_only_table ''M Value'' = [Val 5, Val 7, Val 9]"
    and nrA: "nrows values_only_table = 3"
    by (simp_all add: series_def values_only_table_def)
  have sB: "series named_table ''m_value'' = [Val 5, Val 7]"
    "series named_table ''M_name'' = [Val 11, Val 12]"
    and nrB: "nrows named_table = 2"
    by (simp_all add: series_def named_table_def)
  from thmA fA obtain msA where msA: "load_measurements print_cell (Inr values_only_table) = Inr msA"
      "length msA = nrows values_only_table"
      "\<forall>i < nrows values_only_table. M_value (msA ! i) = series values_only_table ''M Value'' ! i
                \<and> M_name (msA ! i) =
                    (case find (\<lambda>c. c \<in> set (columns values_only_table)) m_name_spellings of
                       None \<Rightarrow> Text (''M'' @ print_cell (series values_only_table ''M Value'' ! i))
                     | Some nc \<Rightarrow> FromColumn (series values_only_table nc ! i))"
    by blast
  have A: "\<exists>ms. load_measurements print_cell (Inr values_only_table) = Inr ms \<and> length ms = 3
      \<and> M_value (ms ! 0) = Val 5 \<and> M_name (ms ! 0) = Text ''M5''
      \<and> M_value (ms ! 1) = Val 7 \<and> M_name (ms ! 1) = Text ''M7''
      \<and> M_value (ms ! 2) = Val 9 \<and> M_name (ms ! 2) = Text ''M9''"
    using msA(1,2) msA(3) [rule_format, of 0] msA(3) [rule_format, of 1] msA(3) [rule_format, of 2]
    by (simp add: nrA sA nA print_cell_def digits)
  from thmB fB obtain msB where msB: "load_measurements print_cell (Inr named_table) = Inr msB"
      "length msB = nrows named_table"
      "\<forall>i < nrows named_table. M_value (msB ! i) = series named_table ''m_value'' ! i
                \<and> M_name (msB ! i) =
                    (case find (\<lambda>c. c \<in> set (columns named_table)) m_name_spellings of
                       None \<Rightarrow> Text (''M'' @ print_cell (series named_table ''m_value'' ! i))
                     | Some nc \<Rightarrow> FromColumn (series named_table nc ! i))"
    by blast
  have B: "\<exists>ms. load_measurements print_cell (Inr named_table) = Inr ms \<and> length ms = 2
      \<and> M_value (ms ! 0) = Val 5 \<and> M_name (ms ! 0) = FromColumn (Val 11)
      \<and> M_value (ms ! 1) = Val 7 \<and> M_name (ms ! 1) = FromColumn (Val 12)"
    using msB(1,2) msB(3) [rule_format, of 0] msB(3) [rule_format, of 1]
    by (simp add: nrB sB nB)
  have C: "load_measurements print_cell (Inr unrecognised_table) = Inr []"
    using thmA fC by blast
  have rows: "m_val_col [(''Note'', Val (1::nat)) :: string \<times> (nat, nat) cell] = None"
    "m_val_col [(''Note'', Val (1::nat)), (''M Value'', Val 5) :: string \<times> (nat, nat) cell] = Some ''M Value''"
    "m_name_col [(''Note'', Val (1::nat)), (''M Value'', Val 5) :: string \<times> (nat, nat) cell] = None"
    "m_val_col [(''M_name'', Val (11::nat)), (''m_value'', Val 7) :: string \<times> (nat, nat) cell] = Some ''m_value''"
    "m_name_col [(''M_name'', Val (11::nat)), (''m_value'', Val 7) :: string \<times> (nat, nat) cell] = Some ''M_name''"
    by (simp_all add: m_val_col_def m_name_col_def m_val_spellings_def m_name_spellings_def index_def)
  have D: "\<exists>a b. measurements_loop print_cell [[(''Note'', Val 1), (''M Value'', Val 5)]] [] = Inr a
          \<and> measurements_loop print_cell [[(''M_name'', Val 11), (''m_value'', Val 7)]] [] = Inr b
          \<and> measurements_loop print_cell
               ([[(''Note'', Val 1), (''M Value'', Val 5)]] @ [[(''M_name'', Val 11), (''m_value'', Val 7)]]) []
              = Inr (a @ b)"
    using thmA by blast
  have E: "measurements_loop print_cell [[(''Note'', Val 1)]] [] = Inr []"
    using thmA rows(1) by blast
  have "\<exists>v. row_get [(''Note'', Val (1::nat)), (''M Value'', Val 5) :: string \<times> (nat, nat) cell] ''M Value'' = Inr v
            \<and> measurements_loop print_cell [[(''Note'', Val 1), (''M Value'', Val 5)]] []
                = Inr [\<lparr>M_value = v, M_name = Text (''M'' @ print_cell v)\<rparr>]"
    using thmA rows(2,3) by blast
  then have F: "measurements_loop print_cell [[(''Note'', Val 1), (''M Value'', Val 5)]] []
        = Inr [\<lparr>M_value = Val 5, M_name = Text ''M5''\<rparr>]"
    by (auto simp: row_get_def print_cell_def digits)
  have "\<exists>v n. row_get [(''M_name'', Val (11::nat)), (''m_value'', Val 7) :: string \<times> (nat, nat) cell] ''m_value'' = Inr v
            \<and> row_get [(''M_name'', Val (11::nat)), (''m_value'', Val 7) :: string \<times> (nat, nat) cell] ''M_name'' = Inr n
            \<and> measurements_loop print_cell [[(''M_name'', Val 11), (''m_value'', Val 7)]] []
                = Inr [\<lparr>M_value = v, M_name = FromColumn n\<rparr>]"
    using thmA rows(4,5) by blast
  then have G: "measurements_loop print_cell [[(''M_name'', Val 11), (''m_value'', Val 7)]] []
        = Inr [\<lparr>M_value = Val 7, M_name = FromColumn (Val 11)\<rparr>]"
    by (auto simp: row_get_def)
  show ?thesis
    using A B C D E F G by blast
qed

section \<open>Properties of the custom ranges\<close>

lemma slot_keys_distinct:
  "distinct (map fst ((if b1 then [(''High 1'', e1)] else []) @ (if b2 then [(''High 2'', e2)] else []) @
     (if b3 then [(''Low 1'', e3)] else []) @ (if b4 then [(''Low 2'', e4)] else [])))"
  by (cases b1; cases b2; cases b3; cases b4) simp_all

lemma map_of_if_single:
  "map_of ((if b then [(k, v)] else []) @ rest) k' =
     (if b \<and> k' = k then Some v else map_of rest k')"
  by simp

text \<open>
  Claim C5. Each of the four slots is a key of \<^verbatim>\<open>custom_ranges\<close> exactly when its box is
  ticked and its center is positive, and then its entry is \<^verbatim>\<open>{enabled: True, value: center}\<close>;
  the dictionary has no other key and no key twice.
\<close>

theorem custom_ranges_slot_iff:
  "map_of (build_custom_ranges w) ''High 1'' =
     (if use_high1 w \<and> high1 w > 0 then Some \<lparr>enabled = True, value = high1 w\<rparr> else None)
   \<and> map_of (build_custom_ranges w) ''High 2'' =
     (if use_high2 w \<and> high2 w > 0 then Some \<lparr>enabled = True, value = high2 w\<rparr> else None)
   \<and> map_of (build_custom_ranges w) ''Low 1'' =
     (if use_low1 w \<and> low1 w > 0 then Some \<lparr>enabled = True, value = low1 w\<rparr> else None)
   \<and> map_of (build_custom_ranges w) ''Low 2'' =
     (if use_low2 w \<and> low2 w > 0 then Some \<lparr>enabled = True, value = low2 w\<rparr> else None)
   \<and> distinct (map fst (build_custom_ranges w))
   \<and> set (map fst (build_custom_ranges w)) \<subseteq> {''High 1'', ''High 2'', ''Low 1'', ''Low 2''}"
proof (intro conjI)
  show "map_of (build_custom_ranges w) ''High 1'' =
     (if use_high1 w \<and> high1 w > 0 then Some \<lparr>enabled = True, value = high1 w\<rparr> else None)"
    unfolding build_custom_ranges_def map_of_if_single by simp
  show "map_of (build_custom_ranges w) ''High 2'' =
     (if use_high2 w \<and> high2 w > 0 then Some \<lparr>enabled = True, value = high2 w\<rparr> else None)"
    unfolding build_custom_ranges_def map_of_if_single by simp
  show "map_of (build_custom_ranges w) ''Low 1'' =
     (if use_low1 w \<and> low1 w > 0 then Some \<lparr>enabled = True, value = low1 w\<rparr> else None)"
    unfolding build_custom_ranges_def map_of_if_single by simp
  show "map_of (build_custom_ranges w) ''Low 2'' =
     (if use_low2 w \<and> low2 w > 0 then Some \<lparr>enabled = True, value = low2 w\<rparr> else None)"
    unfolding build_custom_ranges_def by simp
  show "distinct (map fst (build_custom_ranges w))"
    unfolding build_custom_ranges_def by (rule slot_keys_distinct)
  show "set (map fst (build_custom_ranges w)) \<subseteq> {''High 1'', ''High 2'', ''Low 1'', ''Low 2''}"
    unfolding build_custom_ranges_def by auto
qed

text \<open>
  High 1 ticked at 21000.5 appears; High 2 ticked at 0, Low 1 not ticked, and Low 2 ticked
  at -3 do not.
\<close>

theorem custom_ranges_slot_iff_witness:
  "map_of (build_custom_ranges \<lparr>use_high1 = True, high1_input = 21000.5, use_high2 = True,
      high2_input = 0, use_low1 = False, low1_input = 20500, use_low2 = True, low2_input = - 3\<rparr>)
     ''High 1'' = Some \<lparr>enabled = True, value = 21000.5\<rparr>
   \<and> map_of (build_custom_ranges \<lparr>use_high1 = True, high1_input = 21000.5, use_high2 = True,
      high2_input = 0, use_low1 = False, low1_input = 20500, use_low2 = True, low2_input = - 3\<rparr>)
     ''High 2'' = None
   \<and> map_of (build_custom_ranges \<lparr>use_high1 = True, high1_input = 21000.5, use_high2 = True,
      high2_input = 0, use_low1 = False, low1_input = 20500, use_low2 = True, low2_input = - 3\<rparr>)
     ''Low 1'' = None
   \<and> map_of (build_custom_ranges \<lparr>use_high1 = True, high1_input = 21000.5, use_high2 = True,
      high2_input = 0, use_low1 = False, low1_input = 20500, use_low2 = True, low2_input = - 3\<rparr>)
     ''Low 2'' = None"
  using custom_ranges_slot_iff [of "\<lparr>use_high1 = True, high1_input = 21000.5, use_high2 = True,
      high2_input = 0, use_low1 = False, low1_input = 20500, use_low2 = True, low2_input = - 3\<rparr>"]
  by (simp add: high1_def high2_def low1_def low2_def)

section \<open>Properties of frames\<close>

lemma map_of_replace_other:
  "k \<noteq> name \<Longrightarrow>
   map_of (map (\<lambda>(n, old). if n = name then (n, vs) else (n, old)) xs) k = map_of xs k"
  by (induction xs) auto

lemma map_of_replace_same:
  "name \<in> fst ` set xs \<Longrightarrow>
   map_of (map (\<lambda>(n, old). if n = name then (n, vs) else (n, old)) xs) name = Some vs"
  by (induction xs) auto

lemma series_setitem:
  "series (setitem name vs df) k = (if k = name then vs else series df k)"
proof (cases "name \<in> set (columns df)")
  case True
  then show ?thesis
    by (simp add: series_def setitem_def columns_def map_of_replace_other map_of_replace_same)
next
  case False
  then have "map_of (cols df) name = None"
    by (simp add: columns_def map_of_eq_None_iff)
  then show ?thesis using False
    by (auto simp: series_def setitem_def map_add_def split: option.splits)
qed

lemma columns_setitem:
  "columns (setitem name vs df) =
     (if name \<in> set (columns df) then columns df else columns df @ [name])"
  by (auto simp: setitem_def columns_def)

lemma nrows_setitem: "nrows (setitem name vs df) = nrows df"
  by (simp add: setitem_def)

lemma series_drop_columns:
  "k \<notin> set names \<Longrightarrow> series (drop_columns names df) k = series df k"
proof -
  assume k: "k \<notin> set names"
  have "map_of (filter (\<lambda>(n, vs). n \<notin> set names) xs) k = map_of xs k" for xs :: "(string \<times> ('a, 'b) cell list) list"
    using k by (induction xs) auto
  then show ?thesis by (simp add: series_def drop_columns_def)
qed

lemma columns_drop_columns:
  "columns (drop_columns names df) = filter (\<lambda>n. n \<notin> set names) (columns df)"
  by (simp add: columns_def drop_columns_def filter_map comp_def case_prod_unfold)

lemma nrows_drop_columns: "nrows (drop_columns names df) = nrows df"
  by (simp add: drop_columns_def)

section \<open>Properties of the export\<close>

text \<open>Every step of the export creates frames; none overwrites a frame that existed before.\<close>

lemma coerce_arrival_datetime_value:
  "coerce_arrival_datetime parse a h = (h @ [coerced_frame parse (h ! a)], length h)"
  by (simp add: coerce_arrival_datetime_def df_copy_def new_frame_def df_setitem_def
        coerced_frame_def)

lemma export_loop_Frame:
  "export_loop parse ((g, Frame a) # rest) sheets h =
     (if empty_frame (h ! a) then export_loop parse rest sheets h
      else export_loop parse rest (sheets @ [written_sheet parse g (h ! a)])
             (h @ [drop_columns [''Group''] (h ! a), drop_columns [''Group''] (h ! a),
                   coerced_frame parse (drop_columns [''Group''] (h ! a))]))"
  by (simp add: coerce_arrival_datetime_value df_drop_def df_copy_def new_frame_def nth_append
        written_sheet_def Let_def)

lemma export_loop_extends:
  "\<exists>new. fst (export_loop parse reports sheets h) = h @ new"
proof (induction reports arbitrary: sheets h)
  case Nil
  show ?case by simp
next
  case (Cons p rest)
  obtain g v where p: "p = (g, v)" by (cases p)
  show ?case
  proof (cases v)
    case NotAFrame
    then show ?thesis using Cons.IH p by simp
  next
    case (Frame a)
    show ?thesis
    proof (cases "empty_frame (h ! a)")
      case True
      then show ?thesis using Cons.IH p Frame by (simp add: export_loop_Frame del: export_loop.simps(3))
    next
      case False
      obtain new where
        "fst (export_loop parse rest (sheets @ [written_sheet parse g (h ! a)])
               (h @ [drop_columns [''Group''] (h ! a), drop_columns [''Group''] (h ! a),
                     coerced_frame parse (drop_columns [''Group''] (h ! a))]))
         = (h @ [drop_columns [''Group''] (h ! a), drop_columns [''Group''] (h ! a),
                     coerced_frame parse (drop_columns [''Group''] (h ! a))]) @ new"
        using Cons.IH by blast
      then show ?thesis using False p Frame by (simp add: export_loop_Frame del: export_loop.simps(3))
    qed
  qed
qed

lemma live_groups_append:
  "refs_ok h reports \<Longrightarrow> live_groups (h @ new) reports = live_groups h reports"
  by (induction h reports rule: live_groups.induct) (simp_all add: nth_append)

lemma refs_ok_append: "refs_ok h reports \<Longrightarrow> refs_ok (h @ new) reports"
  by (induction h reports rule: refs_ok.induct) simp_all

lemma live_groups_addr:
  "refs_ok h reports \<Longrightarrow> (g, a) \<in> set (live_groups h reports) \<Longrightarrow> a < length h"
  by (induction h reports rule: live_groups.induct) (auto split: if_splits)

lemma export_loop_sheets:
  "refs_ok h reports \<Longrightarrow>
   snd (export_loop parse reports sheets h) =
     sheets @ map (\<lambda>(g, a). written_sheet parse g (h ! a)) (live_groups h reports)"
proof (induction reports arbitrary: sheets h)
  case Nil
  show ?case by simp
next
  case (Cons p rest)
  obtain g v where p: "p = (g, v)" by (cases p)
  show ?case
  proof (cases v)
    case NotAFrame
    then show ?thesis using Cons p by simp
  next
    case (Frame a)
    have ok: "refs_ok h rest" using Cons.prems p Frame by simp
    show ?thesis
    proof (cases "empty_frame (h ! a)")
      case True
      then show ?thesis using Cons.IH [OF ok] p Frame by (simp add: export_loop_Frame del: export_loop.simps(3))
    next
      case False
      let ?new = "[drop_columns [''Group''] (h ! a), drop_columns [''Group''] (h ! a),
                     coerced_frame parse (drop_columns [''Group''] (h ! a))]"
      have same: "map (\<lambda>(g, a). written_sheet parse g ((h @ ?new) ! a)) (live_groups h rest)
                  = map (\<lambda>(g, a). written_sheet parse g (h ! a)) (live_groups h rest)"
        using live_groups_addr [OF ok] by (auto simp: nth_append)
      show ?thesis
        using Cons.IH [OF refs_ok_append [OF ok, of ?new], of "sheets @ [written_sheet parse g (h ! a)]"]
          False p Frame same
        by (simp add: export_loop_Frame live_groups_append [OF ok] del: export_loop.simps(3))
    qed
  qed
qed

text \<open>
  Claim C7. In the frame \<^verbatim>\<open>_coerce_arrival_datetime\<close> returns: when the input has an
  \<^verbatim>\<open>Arrival_datetime\<close> column, \<^verbatim>\<open>Arrival\<close> holds the parsed values of that column, whatever
  \<^verbatim>\<open>Arrival\<close> held before or whether it existed; only when there is no \<^verbatim>\<open>Arrival_datetime\<close>
  column are the values of \<^verbatim>\<open>Arrival\<close> itself parsed; a value that does not parse becomes
  \<open>NaT\<close>, and the call always returns. With neither column the frame is returned as it
  was. No other column and no row count changes.
\<close>

theorem arrival_datetime_authoritative:
  "case coerce_arrival_datetime parse a h of (h', r) \<Rightarrow>
     (''Arrival_datetime'' \<in> set (columns (h ! a)) \<longrightarrow>
        series (h' ! r) ''Arrival'' =
          map (\<lambda>v. case parse False v of Some t \<Rightarrow> Timestamp t | None \<Rightarrow> NaT)
            (series (h ! a) ''Arrival_datetime''))
   \<and> (''Arrival_datetime'' \<notin> set (columns (h ! a)) \<and> ''Arrival'' \<in> set (columns (h ! a)) \<longrightarrow>
        series (h' ! r) ''Arrival'' =
          map (\<lambda>v. case parse True v of Some t \<Rightarrow> Timestamp t | None \<Rightarrow> NaT)
            (series (h ! a) ''Arrival''))
   \<and> (''Arrival_datetime'' \<notin> set (columns (h ! a)) \<and> ''Arrival'' \<notin> set (columns (h ! a)) \<longrightarrow>
        h' ! r = h ! a)
   \<and> (''Arrival_datetime'' \<in> set (columns (h ! a)) \<or> ''Arrival'' \<in> set (columns (h ! a)) \<longrightarrow>
        ''Arrival'' \<in> set (columns (h' ! r)))
   \<and> (\<forall>k. k \<noteq> ''Arrival'' \<longrightarrow> series (h' ! r) k = series (h ! a) k)
   \<and> nrows (h' ! r) = nrows (h ! a)"
  by (simp add: coerce_arrival_datetime_value coerced_frame_def series_setitem nrows_setitem
        columns_setitem to_datetime_def)

text \<open>
  A frame with both columns takes \<^verbatim>\<open>Arrival\<close> from \<^verbatim>\<open>Arrival_datetime\<close> (the second value does
  not parse); a frame with \<^verbatim>\<open>Arrival\<close> only has it parsed in place; a frame with neither is
  returned unchanged.
\<close>

theorem arrival_datetime_authoritative_witness:
  "(case coerce_arrival_datetime
           (\<lambda>infer c. if c = Val ''2024-03-05T18:00:00''
                       then Some \<lparr>year = 2024, month = Mar, day = 5, hour = 18, minute = 0\<rparr> else None)
           0 [\<lparr>nrows = 2, cols = [(''Arrival'', [Val ''old'', Val ''older'']),
                 (''Arrival_datetime'', [Val ''2024-03-05T18:00:00'', Val ''soon''])]\<rparr>]
    of (h', r) \<Rightarrow> series (h' ! r) ''Arrival'')
     = [Timestamp \<lparr>year = 2024, month = Mar, day = 5, hour = 18, minute = 0\<rparr>, NaT]
   \<and> (case coerce_arrival_datetime
           (\<lambda>infer c. if c = Val ''2024-03-05T18:00:00''
                       then Some \<lparr>year = 2024, month = Mar, day = 5, hour = 18, minute = 0\<rparr> else None)
           0 [\<lparr>nrows = 2, cols = [(''Arrival'', [Val ''2024-03-05T18:00:00'', Val ''late''])]\<rparr>]
    of (h', r) \<Rightarrow> series (h' ! r) ''Arrival'')
     = [Timestamp \<lparr>year = 2024, month = Mar, day = 5, hour = 18, minute = 0\<rparr>, NaT]
   \<and> (case coerce_arrival_datetime
           (\<lambda>infer c. if c = Val ''2024-03-05T18:00:00''
                       then Some \<lparr>year = 2024, month = Mar, day = 5, hour = 18, minute = 0\<rparr> else None)
           0 [\<lparr>nrows = 1, cols = [(''Output'', [Val ''1''])]\<rparr>]
    of (h', r) \<Rightarrow> h' ! r)
     = \<lparr>nrows = 1, cols = [(''Output'', [Val ''1''])]\<rparr>"
  using arrival_datetime_authoritative
      [where parse = "\<lambda>infer c. if c = Val ''2024-03-05T18:00:00''
                       then Some \<lparr>year = 2024, month = Mar, day = 5, hour = 18, minute = 0\<rparr> else None"
          and a = 0 and h = "[\<lparr>nrows = 2, cols = [(''Arrival'', [Val ''old'', Val ''older'']),
                 (''Arrival_datetime'', [Val ''2024-03-05T18:00:00'', Val ''soon''])]\<rparr>]"]
    arrival_datetime_authoritative
      [where parse = "\<lambda>infer c. if c = Val ''2024-03-05T18:00:00''
                       then Some \<lparr>year = 2024, month = Mar, day = 5, hour = 18, minute = 0\<rparr> else None"
          and a = 0 and h = "[\<lparr>nrows = 2, cols = [(''Arrival'', [Val ''2024-03-05T18:00:00'', Val ''late''])]\<rparr>]"]
    arrival_datetime_authoritative
      [where parse = "\<lambda>infer c. if c = Val ''2024-03-05T18:00:00''
                       then Some \<lparr>year = 2024, month = Mar, day = 5, hour = 18, minute = 0\<rparr> else None"
          and a = 0 and h = "[\<lparr>nrows = 1, cols = [(''Output'', [Val ''1''])]\<rparr>]"]
  by (simp add: case_prod_unfold columns_def series_def)

lemma export_loop_all_skipped:
  "\<forall>(g, v) \<in> set reports. v = NotAFrame \<or> (\<exists>a. v = Frame a \<and> nrows (h ! a) = 0) \<Longrightarrow>
   export_loop parse reports sheets h = (h, sheets)"
  by (induction parse reports sheets h rule: export_loop.induct)
     (auto simp: empty_frame_def)

lemma sum_rows_all_skipped:
  "\<forall>(g, v) \<in> set reports. v = NotAFrame \<or> (\<exists>a. v = Frame a \<and> nrows (h ! a) = 0) \<Longrightarrow>
   sum_list (map (\<lambda>(k, v). case v of Frame a \<Rightarrow> nrows (h ! a) | NotAFrame \<Rightarrow> 0) reports) = 0"
  by (induction reports) (auto split: pyobj.splits)

lemma count_groups_all_skipped:
  "\<forall>(g, v) \<in> set reports. v = NotAFrame \<or> (\<exists>a. v = Frame a \<and> nrows (h ! a) = 0) \<Longrightarrow>
   filter (\<lambda>(k, v). case v of Frame a \<Rightarrow> \<not> empty_frame (h ! a) | NotAFrame \<Rightarrow> False) reports = []"
  by (induction reports) (auto split: pyobj.splits simp: empty_frame_def)

text \<open>
  Claim C2, as amended. For a dictionary that has at least one group, all of whose groups
  are not frames or are frames without rows, the export renders a download button whose
  workbook received no sheet, and reports 0 sheets and 0 entries; no frame is created.
  (For a dictionary without any group the function returns at line 82 and renders
  nothing.)
\<close>

theorem export_of_empty_groups:
  assumes "traveler_reports \<noteq> []"
    and "\<forall>(g, v) \<in> set traveler_reports. v = NotAFrame \<or> (\<exists>a. v = Frame a \<and> nrows (h ! a) = 0)"
  shows "\<exists>d. render_unified_export parse traveler_reports t asset h = (h, Some d)
           \<and> workbook d = [] \<and> num_groups d = 0 \<and> total_entries d = 0"
  using assms(1)
  by (simp add: render_unified_export_def export_loop_all_skipped [OF assms(2)]
        sum_rows_all_skipped [OF assms(2)] count_groups_all_skipped [OF assms(2)])

text \<open>A non-frame group and a frame with two columns and no row.\<close>

theorem export_of_empty_groups_witness:
  "\<exists>d. render_unified_export (\<lambda>infer c. None)
          [(''Grp_A'', NotAFrame), (''Grp_B'', Frame 0)]
          \<lparr>year = 2024, month = Mar, day = 5, hour = 18, minute = 0\<rparr> ''NQ''
          [\<lparr>nrows = 0, cols = [(''Group'', []), (''Output'', [])]\<rparr> :: (nat, nat) frame]
        = ([\<lparr>nrows = 0, cols = [(''Group'', []), (''Output'', [])]\<rparr>], Some d)
      \<and> workbook d = [] \<and> num_groups d = 0 \<and> total_entries d = 0"
proof -
  have ne: "[(''Grp_A'', NotAFrame), (''Grp_B'', Frame 0)] \<noteq> []" by simp
  have skipped: "\<forall>(g, v) \<in> set [(''Grp_A'', NotAFrame), (''Grp_B'', Frame 0)].
      v = NotAFrame \<or> (\<exists>a. v = Frame a \<and>
        nrows ([\<lparr>nrows = 0, cols = [(''Group'', []), (''Output'', [])]\<rparr> :: (nat, nat) frame] ! a) = 0)"
    by simp
  show ?thesis
    by (rule export_of_empty_groups [OF ne skipped])
qed

text \<open>
  Claim C2 as stated fails: for the dictionary without groups no button and no workbook is
  produced at all. Also, a frame with two rows and no column is empty for pandas, gets no
  sheet, and is still counted with two entries.
\<close>

theorem export_of_empty_report_counterexample:
  "snd (render_unified_export (\<lambda>infer c. None) []
          \<lparr>year = 2024, month = Mar, day = 5, hour = 18, minute = 0\<rparr> ''NQ''
          ([] :: (nat, nat) store)) = None
   \<and> empty_frame (\<lparr>nrows = 2, cols = []\<rparr> :: (nat, nat) frame)
   \<and> map_option workbook (snd (render_unified_export (\<lambda>infer c. None) [(''Grp_All'', Frame 0)]
          \<lparr>year = 2024, month = Mar, day = 5, hour = 18, minute = 0\<rparr> ''NQ''
          [\<lparr>nrows = 2, cols = []\<rparr> :: (nat, nat) frame])) = Some []
   \<and> map_option total_entries (snd (render_unified_export (\<lambda>infer c. None) [(''Grp_All'', Frame 0)]
          \<lparr>year = 2024, month = Mar, day = 5, hour = 18, minute = 0\<rparr> ''NQ''
          [\<lparr>nrows = 2, cols = []\<rparr> :: (nat, nat) frame])) = Some 2"
  by (simp add: render_unified_export_def empty_frame_def)

text \<open>
  Claim C10. \<^verbatim>\<open>render_unified_export\<close> leaves every frame that existed before the call as
  it was: dropping the grouping column and copying each create a new frame, and the
  \<^verbatim>\<open>Arrival\<close> column is assigned in a copy.
\<close>

theorem render_unified_export_preserves_input:
  "case render_unified_export parse traveler_reports t asset h of
     (h', button) \<Rightarrow> length h \<le> length h' \<and> (\<forall>a < length h. h' ! a = h ! a)"
proof -
  obtain new where "fst (export_loop parse traveler_reports [] h) = h @ new"
    using export_loop_extends by blast
  then show ?thesis
    by (auto simp: render_unified_export_def case_prod_unfold Let_def nth_append)
qed

text \<open>
  After exporting a group with a \<^verbatim>\<open>Group\<close> and an \<^verbatim>\<open>Arrival\<close> column, the group's frame still
  has both columns and its text in \<^verbatim>\<open>Arrival\<close>, while the sheet has lost \<^verbatim>\<open>Group\<close> and holds
  \<open>NaT\<close>.
\<close>

theorem render_unified_export_preserves_input_witness:
  "fst (render_unified_export (\<lambda>infer c. None) [(''Grp All-Day'', Frame 0)]
          \<lparr>year = 2024, month = Mar, day = 5, hour = 18, minute = 0\<rparr> ''NQ''
          [\<lparr>nrows = 1, cols = [(''Group'', [Val ''A'']), (''Arrival'', [Val ''soon''])]\<rparr>
             :: (string, nat) frame]) ! 0
     = \<lparr>nrows = 1, cols = [(''Group'', [Val ''A'']), (''Arrival'', [Val ''soon''])]\<rparr>
   \<and> map_option (map table \<circ> workbook)
        (snd (render_unified_export (\<lambda>infer c. None) [(''Grp All-Day'', Frame 0)]
          \<lparr>year = 2024, month = Mar, day = 5, hour = 18, minute = 0\<rparr> ''NQ''
          [\<lparr>nrows = 1, cols = [(''Group'', [Val ''A'']), (''Arrival'', [Val ''soon''])]\<rparr>
             :: (string, nat) frame]))
     = Some [\<lparr>nrows = 1, cols = [(''Arrival'', [NaT])]\<rparr>]"
proof -
  have sheets: "map_option (map table \<circ> workbook)
        (snd (render_unified_export (\<lambda>infer c. None) [(''Grp All-Day'', Frame 0)]
          \<lparr>year = 2024, month = Mar, day = 5, hour = 18, minute = 0\<rparr> ''NQ''
          [\<lparr>nrows = 1, cols = [(''Group'', [Val ''A'']), (''Arrival'', [Val ''soon''])]\<rparr>
             :: (string, nat) frame]))
     = Some [\<lparr>nrows = 1, cols = [(''Arrival'', [NaT])]\<rparr>]"
    by (simp add: render_unified_export_def export_loop_Frame written_sheet_def coerced_frame_def
          drop_columns_def setitem_def columns_def series_def to_datetime_def empty_frame_def
          del: export_loop.simps(3))
  show ?thesis
    using render_unified_export_preserves_input
      [where parse = "\<lambda>infer c. None" and traveler_reports = "[(''Grp All-Day'', Frame 0)]"
          and t = "\<lparr>year = 2024, month = Mar, day = 5, hour = 18, minute = 0\<rparr>"
          and asset = "''NQ''"
          and h = "[\<lparr>nrows = 1, cols = [(''Group'', [Val ''A'']), (''Arrival'', [Val ''soon''])]\<rparr>
             :: (string, nat) frame]"] sheets
    by (simp add: case_prod_unfold)
qed

section \<open>Properties of the file name\<close>

lemma show_nat_digit: "n < 10 \<Longrightarrow> show_nat n = [char_of (48 + n)]"
  by (subst show_nat.simps) simp

lemma show_nat_two: "10 \<le> n \<Longrightarrow> n < 100 \<Longrightarrow> show_nat n = [char_of (48 + n div 10), char_of (48 + n mod 10)]"
  by (subst show_nat.simps) (simp add: show_nat_digit)

lemma two_digits_lt_100:
  "n < 100 \<Longrightarrow> two_digits n = [char_of (48 + n div 10), char_of (48 + n mod 10)]"
  by (cases "n < 10") (simp_all add: two_digits_def show_nat_digit show_nat_two digit_chars)

lemma report_datetime_str_digits:
  assumes "datetime_ok t"
  shows "report_datetime_str t =
               [char_of (48 + day t div 10), char_of (48 + day t mod 10)] @ ''-'' @
               month_abbr (month t) @ ''-'' @
               [char_of (48 + year t mod 100 div 10), char_of (48 + year t mod 10)] @ ''_'' @
               [char_of (48 + hour t div 10), char_of (48 + hour t mod 10)] @ ''-'' @
               [char_of (48 + minute t div 10), char_of (48 + minute t mod 10)]"
proof -
  have d: "day t < 100" and hh: "hour t < 100" and m: "minute t < 100"
    using assms by (simp_all add: datetime_ok_def)
  have y: "year t mod 100 < 100" by simp
  have yy: "year t mod 100 mod 10 = year t mod 10" by (simp add: mod_mod_cancel)
  have "two_digits (year t mod 100) = [char_of (48 + year t mod 100 div 10), char_of (48 + year t mod 10)]"
    using two_digits_lt_100 [OF y] yy by simp
  then show ?thesis
    by (simp only: report_datetime_str_def two_digits_lt_100 [OF d] two_digits_lt_100 [OF hh]
      two_digits_lt_100 [OF m])
qed

text \<open>
  Claim C9. Whenever the export renders its button (the dictionary has a group), the file
  name is the lowercased asset id and an underscore, then \<^verbatim>\<open>traveler_report_\<close>, then the
  report time as two-digit day, month abbreviation, two-digit year, two-digit hour and
  two-digit minute in the pattern \<^verbatim>\<open>DD-Mon-YY_HH-MM\<close>, then \<^verbatim>\<open>.xlsx\<close>; for an empty asset id
  the name starts with \<^verbatim>\<open>traveler_report_\<close>.
\<close>

theorem export_file_name:
  assumes "traveler_reports \<noteq> []" and "datetime_ok t"
  shows "\<exists>h' d. render_unified_export parse traveler_reports t asset h = (h', Some d)
           \<and> file_name d =
               (if asset = [] then [] else lower asset @ ''_'') @ ''traveler_report_'' @
               [char_of (48 + day t div 10), char_of (48 + day t mod 10)] @ ''-'' @
               month_abbr (month t) @ ''-'' @
               [char_of (48 + year t mod 100 div 10), char_of (48 + year t mod 10)] @ ''_'' @
               [char_of (48 + hour t div 10), char_of (48 + hour t mod 10)] @ ''-'' @
               [char_of (48 + minute t div 10), char_of (48 + minute t mod 10)] @ ''.xlsx''"
  using assms(1)
  by (simp add: render_unified_export_def case_prod_unfold Let_def
        report_datetime_str_digits [OF assms(2)])

text \<open>Asset \<^verbatim>\<open>NQ\<close> (and no asset) at 2024-03-05 18:00.\<close>

theorem export_file_name_witness:
  "map_option file_name (snd (render_unified_export (\<lambda>infer c. None)
      [(''Grp_All'', NotAFrame)] \<lparr>year = 2024, month = Mar, day = 5, hour = 18, minute = 0\<rparr>
      ''NQ'' ([] :: (nat, nat) store)))
     = Some ''nq_traveler_report_05-Mar-24_18-00.xlsx''
   \<and> map_option file_name (snd (render_unified_export (\<lambda>infer c. None)
      [(''Grp_All'', NotAFrame)] \<lparr>year = 2024, month = Mar, day = 5, hour = 18, minute = 0\<rparr>
      [] ([] :: (nat, nat) store)))
     = Some ''traveler_report_05-Mar-24_18-00.xlsx''"
proof -
  have ok: "datetime_ok \<lparr>year = 2024, month = Mar, day = 5, hour = 18, minute = 0\<rparr>"
    by (simp add: datetime_ok_def)
  have ne: "[(''Grp_All'', NotAFrame)] \<noteq> []" by simp
  have nq: "lower ''NQ'' = ''nq''" by code_simp
  show ?thesis
    using export_file_name [OF ne ok, of "\<lambda>infer c. None" "''NQ''" "[] :: (nat, nat) store"]
      export_file_name [OF ne ok, of "\<lambda>infer c. None" "[]" "[] :: (nat, nat) store"]
    by (auto simp: nq digit_chars)
qed

section \<open>Properties of the query handler\<close>

lemma series_DataFrame:
  "k \<in> set (columns (DataFrame rows)) \<Longrightarrow> series (DataFrame rows) k = map (\<lambda>r. json_get r k) rows"
proof -
  have "map_of (map (\<lambda>k. (k, f k)) ks) k = (if k \<in> set ks then Some (f k) else None)"
    for f :: "string \<Rightarrow> ('a, 'b) cell list" and ks
    by (induction ks) auto
  then show "k \<in> set (columns (DataFrame rows)) \<Longrightarrow> ?thesis"
    by (simp add: series_def DataFrame_def columns_def comp_def)
qed

lemma nrows_DataFrame: "nrows (DataFrame rows) = length rows"
  by (simp add: DataFrame_def)

lemma nrows_coerced_frame: "nrows (coerced_frame parse df) = nrows df"
  by (simp add: coerced_frame_def nrows_setitem)

lemma series_coerced_frame_other:
  "k \<noteq> ''Arrival'' \<Longrightarrow> series (coerced_frame parse df) k = series df k"
  by (simp add: coerced_frame_def series_setitem)

lemma columns_coerced_frame:
  "set (columns (coerced_frame parse df)) \<subseteq> insert ''Arrival'' (set (columns df))"
  by (auto simp: coerced_frame_def columns_setitem split: if_splits)

lemma render_single_frame:
  assumes "\<not> empty_frame df"
  shows "snd (render_unified_export parse [(g, Frame 0)] t asset [df]) =
           Some \<lparr>workbook = [written_sheet parse g df],
                 file_name = (if asset \<noteq> [] then lower asset @ ''_'' else []) @ ''traveler_report_'' @
                             report_datetime_str t @ ''.xlsx'',
                 mime = ''application/vnd.openxmlformats-officedocument.spreadsheetml.sheet'',
                 num_groups = 1,
                 total_entries = nrows df\<rparr>"
  using assms
  by (simp add: render_unified_export_def export_loop_Frame del: export_loop.simps(3))

lemma run_aws_query_request:
  assumes "measurement_file f = Some (Inr df)" and "build_custom_ranges (ranges f) \<noteq> []"
  shows "\<exists>ms. load_measurements fmt (Inr df) = Inr ms
           \<and> api_calls (run_aws_query post parse fmt f) =
               [\<lparr>asset_id = form_asset_id f, timeframes = form_timeframes f,
                 report_date = report_date_str (report_time f), scope_days = form_scope_days f,
                 custom_ranges = build_custom_ranges (ranges f), measurements = ms\<rparr>]"
proof -
  obtain ms where ms: "load_measurements fmt (Inr df) = Inr ms"
    using load_measurements_total by blast
  show ?thesis
    using assms ms
    by (simp add: run_aws_query_def Let_def case_prod_unfold split: sum.split)
qed

lemma example_ranges: "build_custom_ranges (ranges example_form) \<noteq> []"
  by (simp add: example_form_def build_custom_ranges_def high1_def)

lemma no_active_ranges_empty: "build_custom_ranges no_active_ranges = []"
  by (simp add: no_active_ranges_def build_custom_ranges_def high1_def high2_def low1_def low2_def)

lemma columns_spec_rows:
  "columns (DataFrame spec_rows) = [''Range'', ''Group'', ''Output'', ''Arrival'']"
  by (simp add: columns_def DataFrame_def spec_rows_def index_def)

lemma spec_rows_length: "length spec_rows = 2"
  by (simp add: spec_rows_def)

lemma spec_rows_not_empty: "\<not> empty_frame (DataFrame spec_rows)"
  by (simp add: empty_frame_def DataFrame_def spec_rows_def index_def)

text \<open>
  Claim C3, as amended. The handler does not validate the timeframe selection: whenever a
  measurement file was uploaded and read and at least one range is active, exactly one
  request is handed to the HTTP client, and it carries the selected timeframes as they
  are, the empty selection included.
\<close>

theorem timeframes_passed_unvalidated:
  assumes "measurement_file f = Some (Inr df)" and "build_custom_ranges (ranges f) \<noteq> []"
  shows "\<exists>p. api_calls (run_aws_query post parse fmt f) = [p] \<and> timeframes p = form_timeframes f"
  using run_aws_query_request [OF assms, of fmt post parse] by auto

text \<open>The example form with every timeframe deselected.\<close>

theorem timeframes_passed_unvalidated_witness:
  "\<exists>p. api_calls (run_aws_query (example_post [] 0) example_parse example_fmt
            (example_form\<lparr>form_timeframes := []\<rparr>)) = [p]
       \<and> timeframes p = []"
proof -
  have mf: "measurement_file (example_form\<lparr>form_timeframes := []\<rparr>)
              = Some (Inr \<lparr>nrows = 1, cols = [(''M value'', [Val ''5''])]\<rparr>)"
    by (simp add: example_form_def)
  have rg: "build_custom_ranges (ranges (example_form\<lparr>form_timeframes := []\<rparr>)) \<noteq> []"
    using example_ranges by simp
  show ?thesis
    using timeframes_passed_unvalidated [OF mf rg, where post = "example_post [] 0"
        and parse = example_parse and fmt = example_fmt]
    by simp
qed

text \<open>
  Claim C3 as stated fails: with an empty timeframe selection the request is sent with
  an empty \<^verbatim>\<open>timeframes\<close> list, and the only messages of the run are the count of loaded
  measurements and the warning about the answer; no validation error is shown.
\<close>

theorem empty_timeframes_rejected_counterexample:
  "form_timeframes (example_form\<lparr>form_timeframes := []\<rparr>) = []
   \<and> map timeframes (api_calls (run_aws_query (example_post [] 0) example_parse example_fmt
         (example_form\<lparr>form_timeframes := []\<rparr>))) = [[]]
   \<and> events (run_aws_query (example_post [] 0) example_parse example_fmt
         (example_form\<lparr>form_timeframes := []\<rparr>))
      = [StInfo ''Loaded 1 measurements'',
         StWarning ''No traveler entries found matching the criteria'']"
proof -
  have one: "show_nat (Suc 0) = ''1''" by code_simp
  have ms: "load_measurements example_fmt (Inr \<lparr>nrows = Suc 0, cols = [(''M value'', [Val ''5''])]\<rparr>)
            = Inr [\<lparr>M_value = Val ''5'', M_name = Text ''M5''\<rparr>]"
    by (simp add: load_measurements_def iterrows_def m_val_col_def m_name_col_def
          m_val_spellings_def m_name_spellings_def index_def row_get_def example_fmt_def)
  show ?thesis
    using example_ranges
    by (simp add: run_aws_query_def example_form_def ms query_aws_api_def example_post_def one)
qed

text \<open>
  Claim C6, as amended. When no slot is both ticked and positive, no request is handed to
  the HTTP client, no download is offered, and the run ends with an error message; when
  the measurement file was uploaded and read, that message is the request to enable at
  least one custom range. (The checks for the measurement file come first, so without a
  readable file their message is the one shown.)
\<close>

theorem no_active_range_stops:
  assumes "build_custom_ranges (ranges f) = []"
  shows "api_calls (run_aws_query post parse fmt f) = []
         \<and> offered (run_aws_query post parse fmt f) = None
         \<and> (\<exists>msg. last (events (run_aws_query post parse fmt f)) = StError msg)
         \<and> (\<forall>df. measurement_file f = Some (Inr df) \<longrightarrow>
               last (events (run_aws_query post parse fmt f)) =
                 StError ''Please enable at least one custom range'')"
proof (cases "measurement_file f")
  case None
  then show ?thesis by (simp add: run_aws_query_def)
next
  case (Some read_excel)
  show ?thesis
  proof (cases read_excel)
    case (Inl e)
    then show ?thesis using Some by (simp add: run_aws_query_def load_measurements_def)
  next
    case (Inr df)
    obtain ms where "load_measurements fmt (Inr df) = Inr ms"
      using load_measurements_total by blast
    then show ?thesis using Some Inr assms by (simp add: run_aws_query_def)
  qed
qed

text \<open>The example form with High 1 ticked at 0 and nothing else ticked.\<close>

theorem no_active_range_stops_witness:
  "build_custom_ranges (ranges (example_form\<lparr>ranges := no_active_ranges\<rparr>)) = []
   \<and> api_calls (run_aws_query (example_post spec_rows 2) example_parse example_fmt
        (example_form\<lparr>ranges := no_active_ranges\<rparr>)) = []
   \<and> offered (run_aws_query (example_post spec_rows 2) example_parse example_fmt
        (example_form\<lparr>ranges := no_active_ranges\<rparr>)) = None
   \<and> last (events (run_aws_query (example_post spec_rows 2) example_parse example_fmt
        (example_form\<lparr>ranges := no_active_ranges\<rparr>)))
      = StError ''Please enable at least one custom range''"
proof -
  have rg: "build_custom_ranges (ranges (example_form\<lparr>ranges := no_active_ranges\<rparr>)) = []"
    by (simp add: no_active_ranges_empty)
  have mf: "measurement_file (example_form\<lparr>ranges := no_active_ranges\<rparr>)
              = Some (Inr \<lparr>nrows = 1, cols = [(''M value'', [Val ''5''])]\<rparr>)"
    by (simp add: example_form_def)
  show ?thesis
    using no_active_range_stops [OF rg, where post = "example_post spec_rows 2"
        and parse = example_parse and fmt = example_fmt] rg mf
    by blast
qed

text \<open>
  Claim C6 as stated fails: with no active range and no measurement file uploaded the run
  stops at line 280 with the message about the measurement file, not with the message
  about ranges.
\<close>

theorem no_active_range_error_counterexample:
  "build_custom_ranges
     (ranges (example_form\<lparr>measurement_file := None, ranges := no_active_ranges\<rparr>)) = []
   \<and> events (run_aws_query (example_post spec_rows 2) example_parse example_fmt
        (example_form\<lparr>measurement_file := None, ranges := no_active_ranges\<rparr>))
      = [StError ''Please upload a measurement file'']"
  by (simp add: no_active_ranges_empty run_aws_query_def)

lemma sheet_name_Grp_All: "sheet_name_of ''Grp_All'' = ''Grp_All''"
  by (simp add: sheet_name_of_def replace_char_def)

lemma written_sheet_columns_in_order:
  shows "nrows (table (written_sheet parse g (DataFrame rows))) = length rows"
    and "\<forall>k \<in> set (columns (DataFrame rows)). k \<noteq> ''Group'' \<and> k \<noteq> ''Arrival'' \<longrightarrow>
           k \<in> set (columns (table (written_sheet parse g (DataFrame rows))))
           \<and> series (table (written_sheet parse g (DataFrame rows))) k = map (\<lambda>row. json_get row k) rows"
    and "set (columns (table (written_sheet parse g (DataFrame rows))))
           \<subseteq> insert ''Arrival'' (set (columns (DataFrame rows)) - {''Group''})"
    and "''Arrival_datetime'' \<in> set (columns (DataFrame rows))
           \<or> ''Arrival'' \<in> set (columns (DataFrame rows)) \<longrightarrow>
           ''Arrival'' \<in> set (columns (table (written_sheet parse g (DataFrame rows))))"
    and "''Arrival_datetime'' \<in> set (columns (DataFrame rows)) \<longrightarrow>
           series (table (written_sheet parse g (DataFrame rows))) ''Arrival'' =
             map (\<lambda>row. case parse False (json_get row ''Arrival_datetime'') of
                          Some t \<Rightarrow> Timestamp t | None \<Rightarrow> NaT) rows"
    and "''Arrival_datetime'' \<notin> set (columns (DataFrame rows))
           \<and> ''Arrival'' \<in> set (columns (DataFrame rows)) \<longrightarrow>
           series (table (written_sheet parse g (DataFrame rows))) ''Arrival'' =
             map (\<lambda>row. case parse True (json_get row ''Arrival'') of
                          Some t \<Rightarrow> Timestamp t | None \<Rightarrow> NaT) rows"
proof -
  let ?df = "DataFrame rows"
  let ?d = "drop_columns [''Group''] ?df"
  have tab: "table (written_sheet parse g (DataFrame rows)) = coerced_frame parse ?d"
    by (simp add: written_sheet_def Let_def)
  show "nrows (table (written_sheet parse g (DataFrame rows))) = length rows"
    by (simp add: tab nrows_coerced_frame nrows_drop_columns nrows_DataFrame)
  have cols_d: "c \<noteq> ''Group'' \<Longrightarrow> c \<in> set (columns ?d) \<longleftrightarrow> c \<in> set (columns ?df)" for c
    by (simp add: columns_drop_columns)
  show "\<forall>k \<in> set (columns (DataFrame rows)). k \<noteq> ''Group'' \<and> k \<noteq> ''Arrival'' \<longrightarrow>
           k \<in> set (columns (table (written_sheet parse g (DataFrame rows))))
           \<and> series (table (written_sheet parse g (DataFrame rows))) k = map (\<lambda>row. json_get row k) rows"
  proof (intro ballI impI)
    fix k
    assume kin: "k \<in> set (columns ?df)" and k: "k \<noteq> ''Group'' \<and> k \<noteq> ''Arrival''"
    have "k \<in> set (columns ?d)" using kin k by (simp add: cols_d)
    then have "k \<in> set (columns (coerced_frame parse ?d))"
      by (auto simp: coerced_frame_def columns_setitem)
    moreover have "series (table (written_sheet parse g (DataFrame rows))) k = series ?df k"
      using k by (simp add: tab series_coerced_frame_other series_drop_columns)
    ultimately show "k \<in> set (columns (table (written_sheet parse g (DataFrame rows))))
           \<and> series (table (written_sheet parse g (DataFrame rows))) k = map (\<lambda>row. json_get row k) rows"
      using kin by (simp add: tab series_DataFrame)
  qed
  show "set (columns (table (written_sheet parse g (DataFrame rows))))
           \<subseteq> insert ''Arrival'' (set (columns (DataFrame rows)) - {''Group''})"
    using columns_coerced_frame [of parse ?d] by (auto simp: tab columns_drop_columns)
  show "''Arrival_datetime'' \<in> set (columns (DataFrame rows))
           \<or> ''Arrival'' \<in> set (columns (DataFrame rows)) \<longrightarrow>
           ''Arrival'' \<in> set (columns (table (written_sheet parse g (DataFrame rows))))"
    by (auto simp: tab coerced_frame_def cols_d columns_setitem)
  show "''Arrival_datetime'' \<in> set (columns (DataFrame rows)) \<longrightarrow>
           series (table (written_sheet parse g (DataFrame rows))) ''Arrival'' =
             map (\<lambda>row. case parse False (json_get row ''Arrival_datetime'') of
                          Some t \<Rightarrow> Timestamp t | None \<Rightarrow> NaT) rows"
    by (simp add: tab coerced_frame_def cols_d series_setitem series_drop_columns
          series_DataFrame to_datetime_def comp_def)
  show "''Arrival_datetime'' \<notin> set (columns (DataFrame rows))
           \<and> ''Arrival'' \<in> set (columns (DataFrame rows)) \<longrightarrow>
           series (table (written_sheet parse g (DataFrame rows))) ''Arrival'' =
             map (\<lambda>row. case parse True (json_get row ''Arrival'') of
                          Some t \<Rightarrow> Timestamp t | None \<Rightarrow> NaT) rows"
    by (simp add: tab coerced_frame_def cols_d series_setitem series_drop_columns
          series_DataFrame to_datetime_def comp_def)
qed

lemma run_aws_query_offered:
  assumes "measurement_file f = Some (Inr mdf)" and "build_custom_ranges (ranges f) \<noteq> []"
    and "\<forall>p. post p = Inr \<lparr>status_code = 200, json = Inr r, body_text = txt\<rparr>"
    and "count r = Some c" and "0 < c" and "data r = Some rows"
    and "\<not> empty_frame (DataFrame rows)"
  shows "\<exists>d. offered (run_aws_query post parse fmt f) = Some d
           \<and> workbook d = [written_sheet parse ''Grp_All'' (DataFrame rows)]"
proof -
  obtain ms where ms: "load_measurements fmt (Inr mdf) = Inr ms"
    using load_measurements_total by blast
  have "snd (render_unified_export parse [(''Grp_All'', Frame 0)] (report_time f)
               (form_asset_id f) [DataFrame rows])
        = Some \<lparr>workbook = [written_sheet parse ''Grp_All'' (DataFrame rows)],
                 file_name = (if form_asset_id f \<noteq> [] then lower (form_asset_id f) @ ''_'' else []) @
                             ''traveler_report_'' @ report_datetime_str (report_time f) @ ''.xlsx'',
                 mime = ''application/vnd.openxmlformats-officedocument.spreadsheetml.sheet'',
                 num_groups = 1,
                 total_entries = nrows (DataFrame rows)\<rparr>"
    by (rule render_single_frame [OF assms(7)])
  then show ?thesis
    using assms(1-6) ms
    by (simp add: run_aws_query_def query_aws_api_def Let_def case_prod_unfold)
qed

lemma render_single_empty:
  assumes "empty_frame df"
  shows "\<exists>d. snd (render_unified_export parse [(g, Frame 0)] t asset [df]) = Some d
           \<and> workbook d = []"
  using assms
  by (simp add: render_unified_export_def export_loop_Frame del: export_loop.simps(3))

lemma api_call_made:
  assumes "api_calls (run_aws_query post parse fmt f) = [p]"
  shows "\<exists>mdf ms. measurement_file f = Some (Inr mdf) \<and> load_measurements fmt (Inr mdf) = Inr ms
           \<and> build_custom_ranges (ranges f) \<noteq> []
           \<and> p = \<lparr>asset_id = form_asset_id f, timeframes = form_timeframes f,
                   report_date = report_date_str (report_time f), scope_days = form_scope_days f,
                   custom_ranges = build_custom_ranges (ranges f), measurements = ms\<rparr>"
proof (cases "measurement_file f")
  case None
  then show ?thesis using assms by (simp add: run_aws_query_def)
next
  case (Some read_excel)
  show ?thesis
  proof (cases read_excel)
    case (Inl e)
    then show ?thesis using assms Some by (simp add: run_aws_query_def load_measurements_def)
  next
    case (Inr mdf)
    obtain ms where ms: "load_measurements fmt (Inr mdf) = Inr ms"
      using load_measurements_total by blast
    show ?thesis
    proof (cases "build_custom_ranges (ranges f) = []")
      case True
      then show ?thesis using assms Some Inr ms by (simp add: run_aws_query_def)
    next
      case False
      have "api_calls (run_aws_query post parse fmt f) =
               [\<lparr>asset_id = form_asset_id f, timeframes = form_timeframes f,
                 report_date = report_date_str (report_time f), scope_days = form_scope_days f,
                 custom_ranges = build_custom_ranges (ranges f), measurements = ms\<rparr>]"
        using run_aws_query_request [where f = f and df = mdf and fmt = fmt and post = post
            and parse = parse] False Some Inr ms by simp
      then show ?thesis using assms Some Inr ms False by simp
    qed
  qed
qed

lemma run_aws_query_offered_any:
  assumes "api_calls (run_aws_query post parse fmt f) = [p]"
    and "query_aws_api post p = Inr r" and "count r = Some c" and "0 < c"
  shows "offered (run_aws_query post parse fmt f) =
           snd (render_unified_export parse [(''Grp_All'', Frame 0)] (report_time f) (form_asset_id f)
                  [DataFrame (case data r of Some rows \<Rightarrow> rows | None \<Rightarrow> [])])"
proof -
  obtain mdf ms where "measurement_file f = Some (Inr mdf)" "load_measurements fmt (Inr mdf) = Inr ms"
      "build_custom_ranges (ranges f) \<noteq> []"
      "p = \<lparr>asset_id = form_asset_id f, timeframes = form_timeframes f,
                   report_date = report_date_str (report_time f), scope_days = form_scope_days f,
                   custom_ranges = build_custom_ranges (ranges f), measurements = ms\<rparr>"
    using api_call_made [OF assms(1)] by blast
  then show ?thesis
    using assms(2-4) by (simp add: run_aws_query_def Let_def case_prod_unfold)
qed

text \<open>
  Claim C1, as amended. The handler does not sort. Whenever a request was sent and the
  service answers with a positive count, a download is offered. If the answered table has
  no row or no column, its workbook has no sheet. Otherwise it has the one sheet
  \<^verbatim>\<open>Grp_All\<close> with as many rows as the answer, and every column lists its values in the
  order in which the service returned the rows: a column other than \<^verbatim>\<open>Group\<close> (dropped)
  and \<^verbatim>\<open>Arrival\<close> holds the values of its key, and \<^verbatim>\<open>Arrival\<close> holds the parsed values of
  \<^verbatim>\<open>Arrival_datetime\<close>, or else of \<^verbatim>\<open>Arrival\<close>, row by row. A missing \<^verbatim>\<open>data\<close> key counts
  as no rows.
\<close>

theorem result_rows_exported_in_service_order:
  assumes "api_calls (run_aws_query post parse fmt f) = [p]"
    and "query_aws_api post p = Inr r" and "count r = Some c" and "0 < c"
    and "rows = (case data r of Some answered \<Rightarrow> answered | None \<Rightarrow> [])"
  shows "\<exists>d. offered (run_aws_query post parse fmt f) = Some d
          \<and> (empty_frame (DataFrame rows) \<longrightarrow> workbook d = [])
          \<and> (\<not> empty_frame (DataFrame rows) \<longrightarrow>
               (\<exists>ws. workbook d = [ws]
                  \<and> sheet_name ws = ''Grp_All'' \<and> nrows (table ws) = length rows
                  \<and> (\<forall>k \<in> set (columns (DataFrame rows)). k \<noteq> ''Group'' \<and> k \<noteq> ''Arrival'' \<longrightarrow>
                        k \<in> set (columns (table ws))
                        \<and> series (table ws) k = map (\<lambda>row. json_get row k) rows)
                  \<and> set (columns (table ws)) \<subseteq> insert ''Arrival'' (set (columns (DataFrame rows)) - {''Group''})
                  \<and> (''Arrival_datetime'' \<in> set (columns (DataFrame rows))
                        \<or> ''Arrival'' \<in> set (columns (DataFrame rows)) \<longrightarrow>
                        ''Arrival'' \<in> set (columns (table ws)))
                  \<and> (''Arrival_datetime'' \<in> set (columns (DataFrame rows)) \<longrightarrow>
                        series (table ws) ''Arrival'' =
                          map (\<lambda>row. case parse False (json_get row ''Arrival_datetime'') of
                                       Some t \<Rightarrow> Timestamp t | None \<Rightarrow> NaT) rows)
                  \<and> (''Arrival_datetime'' \<notin> set (columns (DataFrame rows))
                        \<and> ''Arrival'' \<in> set (columns (DataFrame rows)) \<longrightarrow>
                        series (table ws) ''Arrival'' =
                          map (\<lambda>row. case parse True (json_get row ''Arrival'') of
                                       Some t \<Rightarrow> Timestamp t | None \<Rightarrow> NaT) rows)))"
proof -
  have off: "offered (run_aws_query post parse fmt f) =
           snd (render_unified_export parse [(''Grp_All'', Frame 0)] (report_time f) (form_asset_id f)
                  [DataFrame rows])"
    using run_aws_query_offered_any [OF assms(1-4)] assms(5) by simp
  show ?thesis
  proof (cases "empty_frame (DataFrame rows)")
    case True
    then show ?thesis using off render_single_empty [OF True] by auto
  next
    case False
    have name: "sheet_name (written_sheet parse ''Grp_All'' (DataFrame rows)) = ''Grp_All''"
      by (simp add: written_sheet_def Let_def sheet_name_Grp_All)
    have "\<exists>d. offered (run_aws_query post parse fmt f) = Some d
             \<and> workbook d = [written_sheet parse ''Grp_All'' (DataFrame rows)]"
      using off render_single_frame [OF False] by simp
    then show ?thesis
      using False name
        written_sheet_columns_in_order [where parse = parse and g = "''Grp_All''" and rows = rows]
      by blast
  qed
qed

text \<open>
  The two rows of the sort example, answered in the order Low 1, High 1, are exported in
  that order; an answer with a positive count and no rows, or with two rows without any
  key, gives a workbook without sheets.
\<close>

theorem result_rows_exported_in_service_order_witness:
  "(\<exists>d ws. offered (run_aws_query (example_post spec_rows 2) example_parse example_fmt example_form) = Some d
      \<and> workbook d = [ws] \<and> sheet_name ws = ''Grp_All'' \<and> nrows (table ws) = 2
      \<and> series (table ws) ''Range'' = [Val ''Low 1'', Val ''High 1'']
      \<and> series (table ws) ''Output'' = [Val ''2'', Val ''1'']
      \<and> series (table ws) ''Arrival'' =
           [Timestamp \<lparr>year = 2024, month = Jan, day = 2, hour = 0, minute = 0\<rparr>,
            Timestamp \<lparr>year = 2024, month = Jan, day = 1, hour = 0, minute = 0\<rparr>])
   \<and> (\<exists>d. offered (run_aws_query (example_post [] 2) example_parse example_fmt example_form) = Some d
      \<and> workbook d = [])
   \<and> (\<exists>d. offered (run_aws_query (example_post [[], []] 2) example_parse example_fmt example_form) = Some d
      \<and> workbook d = [])"
proof -
  have mf: "measurement_file example_form = Some (Inr \<lparr>nrows = 1, cols = [(''M value'', [Val ''5''])]\<rparr>)"
    by (simp add: example_form_def)
  have sent: "\<exists>p. api_calls (run_aws_query (example_post rows 2) example_parse example_fmt example_form) = [p]"
    for rows
    using run_aws_query_request [OF mf example_ranges, where post = "example_post rows 2"
        and parse = example_parse and fmt = example_fmt] by blast
  have answer: "query_aws_api (example_post rows 2) p =
      Inr \<lparr>data = Some rows, count = Some 2, hlc_records_processed = Some 0\<rparr>" for rows p
    by (simp add: query_aws_api_def example_post_def)
  have c: "count \<lparr>data = Some rows, count = Some (2::int), hlc_records_processed = Some 0\<rparr> = Some 2"
    and d: "rows = (case data \<lparr>data = Some rows, count = Some (2::int), hlc_records_processed = Some 0\<rparr>
                    of Some answered \<Rightarrow> answered | None \<Rightarrow> [])"
    for rows :: "(string, datetime) row list"
    by simp_all
  have pos: "(0::int) < 2" by simp
  have vals: "map (\<lambda>row. json_get row ''Range'') spec_rows = [Val ''Low 1'', Val ''High 1'']"
      "map (\<lambda>row. json_get row ''Output'') spec_rows = [Val ''2'', Val ''1'']"
      "map (\<lambda>row. case example_parse True (json_get row ''Arrival'') of
                     Some t \<Rightarrow> Timestamp t | None \<Rightarrow> NaT) spec_rows =
         [Timestamp \<lparr>year = 2024, month = Jan, day = 2, hour = 0, minute = 0\<rparr>,
          Timestamp \<lparr>year = 2024, month = Jan, day = 1, hour = 0, minute = 0\<rparr>]"
    by (simp_all add: spec_rows_def json_get_def example_parse_def)
  obtain p1 where p1: "api_calls (run_aws_query (example_post spec_rows 2) example_parse example_fmt
      example_form) = [p1]"
    using sent by blast
  have first: "\<exists>d ws. offered (run_aws_query (example_post spec_rows 2) example_parse example_fmt example_form) = Some d
      \<and> workbook d = [ws] \<and> sheet_name ws = ''Grp_All'' \<and> nrows (table ws) = 2
      \<and> series (table ws) ''Range'' = [Val ''Low 1'', Val ''High 1'']
      \<and> series (table ws) ''Output'' = [Val ''2'', Val ''1'']
      \<and> series (table ws) ''Arrival'' =
           [Timestamp \<lparr>year = 2024, month = Jan, day = 2, hour = 0, minute = 0\<rparr>,
            Timestamp \<lparr>year = 2024, month = Jan, day = 1, hour = 0, minute = 0\<rparr>]"
    using result_rows_exported_in_service_order [OF p1 answer c pos d] spec_rows_not_empty
    by (auto simp: columns_spec_rows vals spec_rows_length)
  obtain p2 where p2: "api_calls (run_aws_query (example_post [] 2) example_parse example_fmt
      example_form) = [p2]"
    using sent by blast
  have e2: "empty_frame (DataFrame ([] :: (string, datetime) row list))"
    by (simp add: empty_frame_def DataFrame_def)
  have second: "\<exists>d. offered (run_aws_query (example_post [] 2) example_parse example_fmt example_form) = Some d
      \<and> workbook d = []"
    using result_rows_exported_in_service_order [OF p2 answer c pos d] e2 by blast
  obtain p3 where p3: "api_calls (run_aws_query (example_post [[], []] 2) example_parse example_fmt
      example_form) = [p3]"
    using sent by blast
  have e3: "empty_frame (DataFrame ([[], []] :: (string, datetime) row list))"
    by (simp add: empty_frame_def DataFrame_def index_def)
  have third: "\<exists>d. offered (run_aws_query (example_post [[], []] 2) example_parse example_fmt example_form) = Some d
      \<and> workbook d = []"
    using result_rows_exported_in_service_order [OF p3 answer c pos d] e3 by blast
  show ?thesis using first second third by blast
qed

lemma spec_rows_sheet:
  "table (written_sheet example_parse ''Grp_All'' (DataFrame spec_rows)) =
     \<lparr>nrows = 2,
      cols = [(''Range'', [Val ''Low 1'', Val ''High 1'']),
              (''Output'', [Val ''2'', Val ''1'']),
              (''Arrival'', [Timestamp \<lparr>year = 2024, month = Jan, day = 2, hour = 0, minute = 0\<rparr>,
                             Timestamp \<lparr>year = 2024, month = Jan, day = 1, hour = 0, minute = 0\<rparr>])]\<rparr>"
  by (simp add: written_sheet_def coerced_frame_def drop_columns_def DataFrame_def spec_rows_def
        index_def columns_def series_def setitem_def to_datetime_def json_get_def example_parse_def)

text \<open>
  Claim C1 as stated fails: for the rows of the sort example, returned by the service as
  \<^verbatim>\<open>Low 1\<close> then \<^verbatim>\<open>High 1\<close>, the exported sheet still has \<^verbatim>\<open>Low 1\<close> first, although
  \<^verbatim>\<open>High 1\<close> is the smaller label.
\<close>

theorem result_rows_sorted_counterexample:
  "map_option (map table \<circ> workbook)
     (offered (run_aws_query (example_post spec_rows 2) example_parse example_fmt example_form))
     = Some [\<lparr>nrows = 2,
               cols = [(''Range'', [Val ''Low 1'', Val ''High 1'']),
                       (''Output'', [Val ''2'', Val ''1'']),
                       (''Arrival'', [Timestamp \<lparr>year = 2024, month = Jan, day = 2, hour = 0, minute = 0\<rparr>,
                                      Timestamp \<lparr>year = 2024, month = Jan, day = 1, hour = 0, minute = 0\<rparr>])]\<rparr>]
   \<and> ''High 1'' < ''Low 1''"
proof -
  have mf: "measurement_file example_form = Some (Inr \<lparr>nrows = 1, cols = [(''M value'', [Val ''5''])]\<rparr>)"
    by (simp add: example_form_def)
  have post: "\<forall>p. example_post spec_rows 2 p =
      Inr \<lparr>status_code = 200,
           json = Inr \<lparr>data = Some spec_rows, count = Some 2, hlc_records_processed = Some 0\<rparr>,
           body_text = []\<rparr>"
    by (simp add: example_post_def)
  have c: "count \<lparr>data = Some spec_rows, count = Some (2::int), hlc_records_processed = Some 0\<rparr> = Some 2"
    and pos: "(0::int) < 2"
    and d: "data \<lparr>data = Some spec_rows, count = Some (2::int), hlc_records_processed = Some 0\<rparr> = Some spec_rows"
    by simp_all
  have lt: "''High 1'' < ''Low 1''" by simp
  show ?thesis
    using run_aws_query_offered [OF mf example_ranges post c pos d spec_rows_not_empty,
        where parse = example_parse and fmt = example_fmt] lt
    by (auto simp: spec_rows_sheet)
qed

end
